theory Spec2Isabelle
  imports Main "HOL-Library.Word"
begin

section \<open>Wire types, messages and errors\<close>

text \<open>
  The initiator side (\<^verbatim>\<open>src/mal/api/operations.go\<close>) and the responder side
  (\<^verbatim>\<open>src/mal/api/handlers.go\<close>) of the MAL interaction layer. The Go integer types
  \<^verbatim>\<open>ULong\<close>, \<^verbatim>\<open>UShort\<close>, \<^verbatim>\<open>UOctet\<close> are words of 64, 16 and 8 bits, so
  that the transaction counter wraps as \<^verbatim>\<open>atomic.AddUint64\<close> does.
\<close>

type_synonym ULong = "64 word"
type_synonym UShort = "16 word"
type_synonym UOctet = "8 word"
type_synonym URI = string

text \<open>
  Modelled from the spec: the type \<^verbatim>\<open>InteractionType\<close> of package \<^verbatim>\<open>mal\<close> and its
  constants are not among the sources. The spec's data model gives the interaction type as
  one of SEND, SUBMIT, REQUEST, INVOKE, PROGRESS, PUBSUB, and these are the six constants
  that the sources name. The sources use the type as a \<^verbatim>\<open>switch\<close> selector with a
  \<^verbatim>\<open>default\<close> case, and a Go type that has six constants has other values as well (the
  field of a message that was never filled in may hold one): \<open>InteractionType_other\<close>
  stands for every value of the type that is none of the six constants.
\<close>

datatype InteractionType =
    MAL_INTERACTIONTYPE_SEND
  | MAL_INTERACTIONTYPE_SUBMIT
  | MAL_INTERACTIONTYPE_REQUEST
  | MAL_INTERACTIONTYPE_INVOKE
  | MAL_INTERACTIONTYPE_PROGRESS
  | MAL_INTERACTIONTYPE_PUBSUB
  | InteractionType_other

text \<open>
  Modelled from the spec: the type \<^verbatim>\<open>InteractionStage\<close> of package \<^verbatim>\<open>mal\<close> and its
  constants are not among the sources. The stages are those of the spec's table of
  interaction-stage constants, under the names the sources use for them. Only the
  difference between stages of one pattern is relied on below.
\<close>

datatype InteractionStage =
    MAL_IP_STAGE_SEND
  | MAL_IP_STAGE_SUBMIT
  | MAL_IP_STAGE_SUBMIT_ACK
  | MAL_IP_STAGE_REQUEST
  | MAL_IP_STAGE_REQUEST_RESPONSE
  | MAL_IP_STAGE_INVOKE
  | MAL_IP_STAGE_INVOKE_ACK
  | MAL_IP_STAGE_INVOKE_RESPONSE
  | MAL_IP_STAGE_PROGRESS
  | MAL_IP_STAGE_PROGRESS_ACK
  | MAL_IP_STAGE_PROGRESS_UPDATE
  | MAL_IP_STAGE_PROGRESS_RESPONSE
  | MAL_IP_STAGE_PUBSUB_REGISTER
  | MAL_IP_STAGE_PUBSUB_REGISTER_ACK
  | MAL_IP_STAGE_PUBSUB_PUBLISH_REGISTER
  | MAL_IP_STAGE_PUBSUB_PUBLISH_REGISTER_ACK
  | MAL_IP_STAGE_PUBSUB_PUBLISH
  | MAL_IP_STAGE_PUBSUB_NOTIFY
  | MAL_IP_STAGE_PUBSUB_DEREGISTER
  | MAL_IP_STAGE_PUBSUB_DEREGISTER_ACK
  | MAL_IP_STAGE_PUBSUB_PUBLISH_DEREGISTER
  | MAL_IP_STAGE_PUBSUB_PUBLISH_DEREGISTER_ACK

text \<open>
  Modelled from the spec: the struct \<^verbatim>\<open>Message\<close> of package \<^verbatim>\<open>mal\<close> is not among the
  sources. The record has the fields that the sources read or write; a field that a
  composite literal of the sources leaves out has Go's zero value (\<open>IsErrorMessage\<close>
  false). The field \<^verbatim>\<open>TransactionId\<close> is \<open>MessageTransactionId\<close> here, the name
  \<open>TransactionId\<close> being the method of the operation context.
\<close>

record Message =
  UriFrom :: URI
  UriTo :: URI
  InteractionType :: InteractionType
  InteractionStage :: InteractionStage
  ServiceArea :: UShort
  AreaVersion :: UOctet
  Service :: UShort
  Operation :: UShort
  MessageTransactionId :: ULong
  IsErrorMessage :: bool
  Body :: "UOctet list"

text \<open>
  Every \<^verbatim>\<open>errors.New\<close> of the sources is a constructor:
  \<^item> \<open>BadStatus\<close>: "Bad operation status";
  \<^item> \<open>DuplicateTransaction\<close>: "Handler already registered for this transaction";
  \<^item> \<open>UnknownTransaction\<close>: "No handler registered for this transaction";
  \<^item> \<open>OperationEnded\<close>: "Operation ends";
  \<^item> \<open>BadStage\<close>: "Bad return message";
  \<^item> \<open>ErrorMessage\<close>: "Error message";
  \<^item> \<open>DuplicateHandler\<close>: "MAL handler already registered";
  \<^item> \<open>BadHandlerType\<close>: "Bad handler type";
  \<^item> \<open>HandlerNotRegistered\<close>: "MAL handler not registered";
  \<^item> \<open>BadStagePubSub\<close>: "Bad interaction stage for PubSub".
  \<open>External\<close> is an error that comes from outside these two files: the transport's
  outcome of a send, or what a handler callback returns.
\<close>

datatype error =
    BadStatus
  | DuplicateTransaction
  | UnknownTransaction
  | OperationEnded
  | BadStage
  | ErrorMessage
  | DuplicateHandler
  | BadHandlerType
  | HandlerNotRegistered
  | BadStagePubSub
  | External string

section \<open>The context and the operation context\<close>

text \<open>
  Modelled from the spec: \<^verbatim>\<open>Context.Send\<close> of package \<^verbatim>\<open>mal\<close> is not among the
  sources. The spec: "send fills in nothing; the caller has set all addressing. The
  Context hands msg to the transport and returns the transport's outcome." The transport's
  outcome is the field \<open>transport\<close>; \<open>outbound\<close> lists the messages handed over, in order.
\<close>

record Context =
  transport :: "Message \<Rightarrow> error option"
  outbound :: "Message list"

definition Send :: "Context \<Rightarrow> Message \<Rightarrow> error option \<times> Context" where
  "Send ctx msg = (transport ctx msg, ctx\<lparr>outbound := outbound ctx @ [msg]\<rparr>)"

text \<open>
  An \<^verbatim>\<open>OperationHandler\<close> in the map is a reference to the operation object that
  registered itself.
\<close>

type_synonym OperationHandler = nat

record OperationContext =
  Ctx :: Context
  Uri :: URI
  handlers :: "ULong \<rightharpoonup> OperationHandler"
  txcounter :: "64 word"

text \<open>
  \<^verbatim>\<open>NewOperationContext\<close>: the URI made by \<^verbatim>\<open>ctx.NewURI\<close> and the outcome of
  \<^verbatim>\<open>ctx.RegisterEndPoint\<close> (both of package \<^verbatim>\<open>mal\<close>) are parameters.
\<close>

definition NewOperationContext ::
  "Context \<Rightarrow> URI \<Rightarrow> error option \<Rightarrow> error + OperationContext" where
  "NewOperationContext ctx uri endpoint_err =
     (let ictx = \<lparr>Ctx = ctx, Uri = uri, handlers = Map.empty, txcounter = 0\<rparr>
      in case endpoint_err of Some err \<Rightarrow> Inl err | None \<Rightarrow> Inr ictx)"

definition register ::
  "OperationContext \<Rightarrow> ULong \<Rightarrow> OperationHandler \<Rightarrow> error option \<times> OperationContext" where
  "register ictx tid handler =
     (case handlers ictx tid of
        Some old \<Rightarrow> (Some DuplicateTransaction, ictx)
      | None \<Rightarrow> (None, ictx\<lparr>handlers := (handlers ictx)(tid \<mapsto> handler)\<rparr>))"

definition deregister :: "OperationContext \<Rightarrow> ULong \<Rightarrow> error option \<times> OperationContext" where
  "deregister ictx tid =
     (case handlers ictx tid of
        None \<Rightarrow> (Some UnknownTransaction, ictx)
      | Some old \<Rightarrow> (None, ictx\<lparr>handlers := (handlers ictx)(tid := None)\<rparr>))"

definition TransactionId :: "OperationContext \<Rightarrow> ULong \<times> OperationContext" where
  "TransactionId ictx =
     (txcounter ictx + 1, ictx\<lparr>txcounter := txcounter ictx + 1\<rparr>)"

text \<open>
  A caller that asks for \<open>n\<close> transaction ids one after the other; the list holds the
  ids in issuance order.
\<close>

fun TransactionIds :: "nat \<Rightarrow> OperationContext \<Rightarrow> ULong list" where
  "TransactionIds 0 ictx = []"
| "TransactionIds (Suc n) ictx =
     (case TransactionId ictx of (t, ictx') \<Rightarrow> t # TransactionIds n ictx')"

section \<open>Operations\<close>

text \<open>
  The inbound queue of an operation, a Go channel of messages. \<open>queue\<close> holds the
  messages in delivery order: those buffered and those the router enqueues while a call
  waits (the capacity of 10 only makes the router wait, it drops nothing). \<open>is_closed\<close>
  says that the channel is closed, or gets closed by \<^verbatim>\<open>Close\<close> in another goroutine
  while the call waits, once the queued messages are consumed.
\<close>

record chan =
  queue :: "Message list"
  is_closed :: bool

text \<open>
  The receive \<^verbatim>\<open>msg, more := <-op.ch\<close>. The result \<open>None\<close> is a receive that never
  returns: on a nil channel, or on an open channel that no message reaches any more.
  \<open>Some (None, c)\<close> is \<^verbatim>\<open>more = false\<close>, \<open>Some (Some msg, c)\<close> a delivered message;
  \<open>c\<close> is the channel afterwards.
\<close>

fun recv :: "chan option \<Rightarrow> (Message option \<times> chan option) option" where
  "recv None = None"
| "recv (Some c) =
     (case queue c of
        msg # rest \<Rightarrow> Some (Some msg, Some (c\<lparr>queue := rest\<rparr>))
      | [] \<Rightarrow> if is_closed c then Some (None, Some c) else None)"

datatype status =
    CREATED
  | INITIATED
  | ACKNOWLEDGED
  | PROGRESSING
  | REGISTER_INITIATED
  | REGISTERED
  | REREGISTER_INITIATED
  | DEREGISTER_INITIATED
  | FINAL
  | CLOSED

text \<open>
  The struct \<^verbatim>\<open>OperationX\<close>. Its pointer \<^verbatim>\<open>ictx\<close> to the shared operation context
  is the first component of the state pair that every method takes and returns; \<open>self\<close>
  is the reference of the object itself, which a method hands to \<open>register\<close>. A nil
  channel is \<open>None\<close>.
\<close>

record OperationX =
  self :: OperationHandler
  tid :: ULong
  ch :: "chan option"
  urito :: URI
  area :: UShort
  areaVersion :: UOctet
  service :: UShort
  operation :: UShort
  status :: status

text \<open>
  \<^verbatim>\<open>InvokeOperationX\<close> and \<^verbatim>\<open>ProgressOperationX\<close> both embed \<^verbatim>\<open>OperationX\<close> and add
  the cached response.
\<close>

record InvokeOperationX = OperationX +
  response :: "Message option"

type_synonym ProgressOperationX = InvokeOperationX

text \<open>What a method returning \<^verbatim>\<open>(*Message, error)\<close> gives back, with the state after it;
  \<open>None\<close> when the call never returns.\<close>

type_synonym 'o call = "((Message option \<times> error option) \<times> OperationContext \<times> 'o) option"

definition verify :: "'a OperationX_scheme \<Rightarrow> Message \<Rightarrow> bool" where
  "verify op msg =
     (if ServiceArea msg = area op \<and> AreaVersion msg = areaVersion op \<and>
         Service msg = service op \<and> Operation msg = operation op
      then True else False)"

definition finalize ::
  "OperationContext \<times> 'a OperationX_scheme \<Rightarrow> OperationContext \<times> 'a OperationX_scheme" where
  "finalize s =
     (case s of (ictx, op) \<Rightarrow>
        if ch op \<noteq> None
        then (snd (deregister ictx (tid op)), op\<lparr>status := FINAL\<rparr>)
        else (ictx, op\<lparr>status := FINAL\<rparr>))"

definition GetTid :: "'a OperationX_scheme \<Rightarrow> ULong" where
  "GetTid op = tid op"

text \<open>
  \<^verbatim>\<open>Close\<close>. The status is set to \<open>CLOSED\<close> before it is compared with \<open>CREATED\<close> and
  \<open>FINAL\<close>, as in the source. \<^verbatim>\<open>close(op.ch); op.ch = nil\<close> leaves the operation
  without a channel.
\<close>

definition Close ::
  "OperationContext \<times> 'a OperationX_scheme \<Rightarrow>
   error option \<times> OperationContext \<times> 'a OperationX_scheme" where
  "Close s =
     (case s of (ictx, op) \<Rightarrow>
        if status op = CLOSED then (None, ictx, op)
        else
          (case ch (op\<lparr>status := CLOSED\<rparr>) of
             Some c \<Rightarrow>
               (case (if status (op\<lparr>status := CLOSED\<rparr>) \<noteq> CREATED \<and>
                         status (op\<lparr>status := CLOSED\<rparr>) \<noteq> FINAL
                      then deregister ictx (tid op) else (None, ictx)) of
                  (err, ictx') \<Rightarrow> (err, ictx', op\<lparr>status := CLOSED, ch := None\<rparr>))
           | None \<Rightarrow> (None, ictx, op\<lparr>status := CLOSED\<rparr>)))"

definition Reset ::
  "OperationContext \<times> 'a OperationX_scheme \<Rightarrow>
   error option \<times> OperationContext \<times> 'a OperationX_scheme" where
  "Reset s =
     (case s of (ictx, op) \<Rightarrow>
        if status op \<noteq> FINAL then (Some BadStatus, ictx, op)
        else
          (case TransactionId ictx of
             (t, ictx') \<Rightarrow> (None, ictx', op\<lparr>tid := t, status := CREATED\<rparr>)))"

text \<open>
  The composite literal \<^verbatim>\<open>&Message{UriFrom: op.ictx.Uri, UriTo: op.urito, ...}\<close> that
  every initiating method builds, with its interaction type, stage and body.
\<close>

definition outMessage ::
  "OperationContext \<Rightarrow> 'a OperationX_scheme \<Rightarrow> InteractionType \<Rightarrow> InteractionStage \<Rightarrow>
   UOctet list \<Rightarrow> Message" where
  "outMessage ictx op itype stage body =
     \<lparr>UriFrom = Uri ictx, UriTo = urito op, InteractionType = itype,
      InteractionStage = stage, ServiceArea = area op, AreaVersion = areaVersion op,
      Service = service op, Operation = operation op, MessageTransactionId = tid op,
      IsErrorMessage = False, Body = body\<rparr>"

text \<open>
  The constructors \<^verbatim>\<open>NewSubmitOperation\<close>, \<^verbatim>\<open>NewRequestOperation\<close>, ... differ in
  the Go type of the result only: a fresh transaction id, a fresh open channel, status
  \<open>CREATED\<close>. \<open>ref\<close> is the reference of the new object.
\<close>

definition NewOperation ::
  "OperationContext \<Rightarrow> OperationHandler \<Rightarrow> URI \<Rightarrow> UShort \<Rightarrow> UOctet \<Rightarrow> UShort \<Rightarrow> UShort \<Rightarrow>
   OperationContext \<times> OperationX" where
  "NewOperation ictx ref uri a v s o' =
     (case TransactionId ictx of
        (t, ictx') \<Rightarrow>
          (ictx', \<lparr>self = ref, tid = t, ch = Some \<lparr>queue = [], is_closed = False\<rparr>,
                   urito = uri, area = a, areaVersion = v, service = s, operation = o',
                   status = CREATED\<rparr>))"

section \<open>The initiating methods\<close>

text \<open>
  A method takes the pair of the operation context and the operation and returns its
  result with the pair as it leaves it. The statements are those of the source, in the
  source's order; \<open>op1\<close>, \<open>op2\<close>, \<open>ictx1\<close>, \<open>ictx2\<close> name the state after each
  assignment.
\<close>

text \<open>\<^verbatim>\<open>SubmitOperationX.Submit\<close>.\<close>

definition Submit :: "UOctet list \<Rightarrow> OperationContext \<times> OperationX \<Rightarrow> OperationX call" where
  "Submit body s =
     (case s of (ictx, op) \<Rightarrow>
        if status op \<noteq> CREATED then Some ((None, Some BadStatus), ictx, op)
        else
          (let op1 = op\<lparr>status := INITIATED\<rparr>;
               msg0 = outMessage ictx op1 MAL_INTERACTIONTYPE_SUBMIT MAL_IP_STAGE_SUBMIT body
           in case register ictx (tid op1) (self op1) of
                (Some err, ictx1) \<Rightarrow> Some ((None, Some err), finalize (ictx1, op1))
              | (None, ictx1) \<Rightarrow>
                  (case Send (Ctx ictx1) msg0 of
                     (Some err, ctx2) \<Rightarrow>
                       Some ((None, Some err), finalize (ictx1\<lparr>Ctx := ctx2\<rparr>, op1))
                   | (None, ctx2) \<Rightarrow>
                       (let ictx2 = ictx1\<lparr>Ctx := ctx2\<rparr>
                        in case recv (ch op1) of
                             None \<Rightarrow> None
                           | Some (None, c) \<Rightarrow>
                               Some ((None, Some OperationEnded), finalize (ictx2, op1\<lparr>ch := c\<rparr>))
                           | Some (Some msg, c) \<Rightarrow>
                               (let op2 = op1\<lparr>ch := c\<rparr>
                                in if InteractionStage msg \<noteq> MAL_IP_STAGE_SUBMIT_ACK
                                   then Some ((None, Some BadStage), finalize (ictx2, op2))
                                   else if IsErrorMessage msg
                                   then Some ((Some msg, Some ErrorMessage), finalize (ictx2, op2))
                                   else Some ((Some msg, None), finalize (ictx2, op2)))))))"

text \<open>\<^verbatim>\<open>RequestOperationX.Request\<close>.\<close>

definition Request :: "UOctet list \<Rightarrow> OperationContext \<times> OperationX \<Rightarrow> OperationX call" where
  "Request body s =
     (case s of (ictx, op) \<Rightarrow>
        if status op \<noteq> CREATED then Some ((None, Some BadStatus), ictx, op)
        else
          (let op1 = op\<lparr>status := INITIATED\<rparr>;
               msg0 = outMessage ictx op1 MAL_INTERACTIONTYPE_REQUEST MAL_IP_STAGE_REQUEST body
           in case register ictx (tid op1) (self op1) of
                (Some err, ictx1) \<Rightarrow> Some ((None, Some err), finalize (ictx1, op1))
              | (None, ictx1) \<Rightarrow>
                  (case Send (Ctx ictx1) msg0 of
                     (Some err, ctx2) \<Rightarrow>
                       Some ((None, Some err), finalize (ictx1\<lparr>Ctx := ctx2\<rparr>, op1))
                   | (None, ctx2) \<Rightarrow>
                       (let ictx2 = ictx1\<lparr>Ctx := ctx2\<rparr>
                        in case recv (ch op1) of
                             None \<Rightarrow> None
                           | Some (None, c) \<Rightarrow>
                               Some ((None, Some OperationEnded), finalize (ictx2, op1\<lparr>ch := c\<rparr>))
                           | Some (Some msg, c) \<Rightarrow>
                               (let op2 = op1\<lparr>ch := c\<rparr>
                                in if InteractionStage msg \<noteq> MAL_IP_STAGE_REQUEST_RESPONSE
                                   then Some ((None, Some BadStage), finalize (ictx2, op2))
                                   else if IsErrorMessage msg
                                   then Some ((Some msg, Some ErrorMessage), finalize (ictx2, op2))
                                   else Some ((Some msg, None), finalize (ictx2, op2)))))))"

text \<open>\<^verbatim>\<open>InvokeOperationX.Invoke\<close>.\<close>

definition Invoke :: "UOctet list \<Rightarrow> OperationContext \<times> InvokeOperationX \<Rightarrow> InvokeOperationX call" where
  "Invoke body s =
     (case s of (ictx, op) \<Rightarrow>
        if status op \<noteq> CREATED then Some ((None, Some BadStatus), ictx, op)
        else
          (let op1 = op\<lparr>status := INITIATED\<rparr>;
               msg0 = outMessage ictx op1 MAL_INTERACTIONTYPE_INVOKE MAL_IP_STAGE_INVOKE body
           in case register ictx (tid op1) (self op1) of
                (Some err, ictx1) \<Rightarrow> Some ((None, Some err), finalize (ictx1, op1))
              | (None, ictx1) \<Rightarrow>
                  (case Send (Ctx ictx1) msg0 of
                     (Some err, ctx2) \<Rightarrow>
                       Some ((None, Some err), finalize (ictx1\<lparr>Ctx := ctx2\<rparr>, op1))
                   | (None, ctx2) \<Rightarrow>
                       (let ictx2 = ictx1\<lparr>Ctx := ctx2\<rparr>
                        in case recv (ch op1) of
                             None \<Rightarrow> None
                           | Some (None, c) \<Rightarrow>
                               Some ((None, Some OperationEnded), finalize (ictx2, op1\<lparr>ch := c\<rparr>))
                           | Some (Some msg, c) \<Rightarrow>
                               (let op2 = op1\<lparr>ch := c\<rparr>
                                in if InteractionStage msg \<noteq> MAL_IP_STAGE_INVOKE_ACK
                                   then Some ((None, Some BadStage), finalize (ictx2, op2))
                                   else if IsErrorMessage msg
                                   then Some ((Some msg, Some ErrorMessage),
                                              finalize (ictx2, op2\<lparr>status := ACKNOWLEDGED\<rparr>))
                                   else Some ((Some msg, None), ictx2, op2\<lparr>status := ACKNOWLEDGED\<rparr>))))))"

text \<open>\<^verbatim>\<open>ProgressOperationX.Progress\<close>.\<close>

definition Progress :: "UOctet list \<Rightarrow> OperationContext \<times> ProgressOperationX \<Rightarrow> ProgressOperationX call" where
  "Progress body s =
     (case s of (ictx, op) \<Rightarrow>
        if status op \<noteq> CREATED then Some ((None, Some BadStatus), ictx, op)
        else
          (let op1 = op\<lparr>status := INITIATED\<rparr>;
               msg0 = outMessage ictx op1 MAL_INTERACTIONTYPE_PROGRESS MAL_IP_STAGE_PROGRESS body
           in case register ictx (tid op1) (self op1) of
                (Some err, ictx1) \<Rightarrow> Some ((None, Some err), finalize (ictx1, op1))
              | (None, ictx1) \<Rightarrow>
                  (case Send (Ctx ictx1) msg0 of
                     (Some err, ctx2) \<Rightarrow>
                       Some ((None, Some err), finalize (ictx1\<lparr>Ctx := ctx2\<rparr>, op1))
                   | (None, ctx2) \<Rightarrow>
                       (let ictx2 = ictx1\<lparr>Ctx := ctx2\<rparr>
                        in case recv (ch op1) of
                             None \<Rightarrow> None
                           | Some (None, c) \<Rightarrow>
                               Some ((None, Some OperationEnded), finalize (ictx2, op1\<lparr>ch := c\<rparr>))
                           | Some (Some msg, c) \<Rightarrow>
                               (let op2 = op1\<lparr>ch := c\<rparr>
                                in if InteractionStage msg \<noteq> MAL_IP_STAGE_PROGRESS_ACK
                                   then Some ((None, Some BadStage), finalize (ictx2, op2))
                                   else if IsErrorMessage msg
                                   then Some ((Some msg, Some ErrorMessage),
                                              finalize (ictx2, op2\<lparr>status := ACKNOWLEDGED\<rparr>))
                                   else Some ((Some msg, None), ictx2, op2\<lparr>status := ACKNOWLEDGED\<rparr>))))))"

text \<open>\<^verbatim>\<open>SubscriberOperationX.Register\<close>.\<close>

definition Subscriber_Register :: "UOctet list \<Rightarrow> OperationContext \<times> OperationX \<Rightarrow> OperationX call" where
  "Subscriber_Register body s =
     (case s of (ictx, op) \<Rightarrow>
        if status op \<noteq> CREATED then Some ((None, Some BadStatus), ictx, op)
        else
          (let op1 = op\<lparr>status := REGISTER_INITIATED\<rparr>;
               msg0 = outMessage ictx op1 MAL_INTERACTIONTYPE_PUBSUB MAL_IP_STAGE_PUBSUB_REGISTER body
           in case register ictx (tid op1) (self op1) of
                (Some err, ictx1) \<Rightarrow> Some ((None, Some err), finalize (ictx1, op1))
              | (None, ictx1) \<Rightarrow>
                  (case Send (Ctx ictx1) msg0 of
                     (Some err, ctx2) \<Rightarrow>
                       Some ((None, Some err), finalize (ictx1\<lparr>Ctx := ctx2\<rparr>, op1))
                   | (None, ctx2) \<Rightarrow>
                       (let ictx2 = ictx1\<lparr>Ctx := ctx2\<rparr>
                        in case recv (ch op1) of
                             None \<Rightarrow> None
                           | Some (None, c) \<Rightarrow>
                               Some ((None, Some OperationEnded), finalize (ictx2, op1\<lparr>ch := c\<rparr>))
                           | Some (Some msg, c) \<Rightarrow>
                               (let op2 = op1\<lparr>ch := c\<rparr>
                                in if InteractionStage msg \<noteq> MAL_IP_STAGE_PUBSUB_REGISTER_ACK
                                   then Some ((None, Some BadStage), finalize (ictx2, op2))
                                   else if IsErrorMessage msg
                                   then Some ((Some msg, Some ErrorMessage), finalize (ictx2, op2))
                                   else Some ((Some msg, None), ictx2, op2\<lparr>status := REGISTERED\<rparr>))))))"

text \<open>\<^verbatim>\<open>PublisherOperationX.Register\<close>.\<close>

definition Publisher_Register :: "UOctet list \<Rightarrow> OperationContext \<times> OperationX \<Rightarrow> OperationX call" where
  "Publisher_Register body s =
     (case s of (ictx, op) \<Rightarrow>
        if status op \<noteq> CREATED then Some ((None, Some BadStatus), ictx, op)
        else
          (let op1 = op\<lparr>status := REGISTER_INITIATED\<rparr>;
               msg0 = outMessage ictx op1 MAL_INTERACTIONTYPE_PUBSUB MAL_IP_STAGE_PUBSUB_PUBLISH_REGISTER body
           in case register ictx (tid op1) (self op1) of
                (Some err, ictx1) \<Rightarrow> Some ((None, Some err), finalize (ictx1, op1))
              | (None, ictx1) \<Rightarrow>
                  (case Send (Ctx ictx1) msg0 of
                     (Some err, ctx2) \<Rightarrow>
                       Some ((None, Some err), finalize (ictx1\<lparr>Ctx := ctx2\<rparr>, op1))
                   | (None, ctx2) \<Rightarrow>
                       (let ictx2 = ictx1\<lparr>Ctx := ctx2\<rparr>
                        in case recv (ch op1) of
                             None \<Rightarrow> None
                           | Some (None, c) \<Rightarrow>
                               Some ((None, Some OperationEnded), finalize (ictx2, op1\<lparr>ch := c\<rparr>))
                           | Some (Some msg, c) \<Rightarrow>
                               (let op2 = op1\<lparr>ch := c\<rparr>
                                in if InteractionStage msg \<noteq> MAL_IP_STAGE_PUBSUB_PUBLISH_REGISTER_ACK
                                   then Some ((None, Some BadStage), finalize (ictx2, op2))
                                   else if IsErrorMessage msg
                                   then Some ((Some msg, Some ErrorMessage), finalize (ictx2, op2))
                                   else Some ((Some msg, None), ictx2, op2\<lparr>status := REGISTERED\<rparr>))))))"

text \<open>\<^verbatim>\<open>InvokeOperationX.GetResponse\<close>. The response is stored after \<open>finalize\<close>.\<close>

definition Invoke_GetResponse ::
  "OperationContext \<times> InvokeOperationX \<Rightarrow> InvokeOperationX call" where
  "Invoke_GetResponse s =
     (case s of (ictx, op) \<Rightarrow>
        if status op = FINAL \<and> response op \<noteq> None
        then (if IsErrorMessage (the (response op))
              then Some ((response op, Some ErrorMessage), ictx, op)
              else Some ((response op, None), ictx, op))
        else if status op \<noteq> ACKNOWLEDGED then Some ((None, Some BadStatus), ictx, op)
        else
          (case recv (ch op) of
             None \<Rightarrow> None
           | Some (None, c) \<Rightarrow>
               Some ((None, Some OperationEnded), finalize (ictx, op\<lparr>ch := c\<rparr>))
           | Some (Some msg, c) \<Rightarrow>
               (let op2 = op\<lparr>ch := c\<rparr>
                in if InteractionStage msg \<noteq> MAL_IP_STAGE_INVOKE_RESPONSE
                   then Some ((None, Some BadStage), finalize (ictx, op2))
                   else
                     (case finalize (ictx, op2) of
                        (ictx3, op3) \<Rightarrow>
                          if IsErrorMessage msg
                          then Some ((Some msg, Some ErrorMessage),
                                     ictx3, op3\<lparr>response := Some msg\<rparr>)
                          else Some ((Some msg, None), ictx3, op3\<lparr>response := Some msg\<rparr>)))))"

text \<open>\<^verbatim>\<open>ProgressOperationX.GetUpdate\<close>. The response is stored before \<open>finalize\<close>.\<close>

definition GetUpdate ::
  "OperationContext \<times> ProgressOperationX \<Rightarrow> ProgressOperationX call" where
  "GetUpdate s =
     (case s of (ictx, op) \<Rightarrow>
        if status op \<noteq> ACKNOWLEDGED \<and> status op \<noteq> PROGRESSING
        then Some ((None, Some BadStatus), ictx, op)
        else
          (case recv (ch op) of
             None \<Rightarrow> None
           | Some (None, c) \<Rightarrow>
               Some ((None, Some OperationEnded), finalize (ictx, op\<lparr>ch := c\<rparr>))
           | Some (Some msg, c) \<Rightarrow>
               (let op2 = op\<lparr>ch := c\<rparr>
                in if InteractionStage msg \<noteq> MAL_IP_STAGE_PROGRESS_UPDATE \<and>
                      InteractionStage msg \<noteq> MAL_IP_STAGE_PROGRESS_RESPONSE
                   then Some ((None, Some BadStage), finalize (ictx, op2))
                   else if InteractionStage msg = MAL_IP_STAGE_PROGRESS_UPDATE
                   then (if IsErrorMessage msg
                         then Some ((Some msg, Some ErrorMessage),
                                    finalize (ictx, op2\<lparr>status := PROGRESSING\<rparr>))
                         else Some ((Some msg, None), ictx, op2\<lparr>status := PROGRESSING\<rparr>))
                   else Some ((None, None), finalize (ictx, op2\<lparr>response := Some msg\<rparr>)))))"

text \<open>\<^verbatim>\<open>ProgressOperationX.GetResponse\<close>.\<close>

definition Progress_GetResponse ::
  "OperationContext \<times> ProgressOperationX \<Rightarrow> ProgressOperationX call" where
  "Progress_GetResponse s =
     (case s of (ictx, op) \<Rightarrow>
        if status op = FINAL \<and> response op \<noteq> None
        then (if IsErrorMessage (the (response op))
              then Some ((response op, Some ErrorMessage), ictx, op)
              else Some ((response op, None), ictx, op))
        else if status op \<noteq> ACKNOWLEDGED \<and> status op \<noteq> PROGRESSING
        then Some ((None, Some BadStatus), ictx, op)
        else
          (case recv (ch op) of
             None \<Rightarrow> None
           | Some (None, c) \<Rightarrow>
               Some ((None, Some OperationEnded), finalize (ictx, op\<lparr>ch := c\<rparr>))
           | Some (Some msg, c) \<Rightarrow>
               (let op2 = op\<lparr>ch := c\<rparr>
                in if InteractionStage msg \<noteq> MAL_IP_STAGE_PROGRESS_RESPONSE
                   then Some ((None, Some BadStage), finalize (ictx, op2))
                   else
                     (case finalize (ictx, op2) of
                        (ictx3, op3) \<Rightarrow>
                          if IsErrorMessage msg
                          then Some ((Some msg, Some ErrorMessage),
                                     ictx3, op3\<lparr>response := Some msg\<rparr>)
                          else Some ((Some msg, None), ictx3, op3\<lparr>response := Some msg\<rparr>)))))"

text \<open>\<^verbatim>\<open>SubscriberOperationX.GetNotify\<close>.\<close>

definition GetNotify :: "OperationContext \<times> OperationX \<Rightarrow> OperationX call" where
  "GetNotify s =
     (case s of (ictx, op) \<Rightarrow>
        if status op \<noteq> REGISTERED \<and> status op \<noteq> REREGISTER_INITIATED \<and>
           status op \<noteq> DEREGISTER_INITIATED
        then Some ((None, Some BadStatus), ictx, op)
        else
          (case recv (ch op) of
             None \<Rightarrow> None
           | Some (None, c) \<Rightarrow>
               Some ((None, Some OperationEnded), finalize (ictx, op\<lparr>ch := c\<rparr>))
           | Some (Some msg, c) \<Rightarrow>
               (let op2 = op\<lparr>ch := c\<rparr>
                in if InteractionStage msg \<noteq> MAL_IP_STAGE_PUBSUB_NOTIFY
                   then Some ((None, Some BadStage), finalize (ictx, op2))
                   else if IsErrorMessage msg
                   then Some ((Some msg, Some ErrorMessage), finalize (ictx, op2))
                   else Some ((Some msg, None), ictx, op2))))"

text \<open>
  The loop of \<^verbatim>\<open>SubscriberOperationX.Deregister\<close>: \<^verbatim>\<open>for { msg, more := <-op.ch ... }\<close>.
  Every turn takes one message off the queue, so the recursion ends; a turn whose receive
  never returns is \<open>None\<close>.
\<close>

function Deregister_wait :: "OperationContext \<times> OperationX \<Rightarrow> OperationX call" where
  "Deregister_wait (ictx, op) =
     (case recv (ch op) of
        None \<Rightarrow> None
      | Some (None, c) \<Rightarrow>
          Some ((None, Some OperationEnded), finalize (ictx, op\<lparr>ch := c\<rparr>))
      | Some (Some msg, c) \<Rightarrow>
          if InteractionStage msg = MAL_IP_STAGE_PUBSUB_NOTIFY
          then Deregister_wait (ictx, op\<lparr>ch := c\<rparr>)
          else if InteractionStage msg \<noteq> MAL_IP_STAGE_PUBSUB_DEREGISTER_ACK
          then Some ((None, Some BadStage), finalize (ictx, op\<lparr>ch := c\<rparr>))
          else if IsErrorMessage msg
          then Some ((Some msg, Some ErrorMessage), finalize (ictx, op\<lparr>ch := c\<rparr>))
          else Some ((Some msg, None), finalize (ictx, op\<lparr>ch := c\<rparr>)))"
  by pat_completeness auto
termination
  by (relation "measure (\<lambda>(ictx, op). case ch op of None \<Rightarrow> 0 | Some c \<Rightarrow> length (queue c))")
     (auto split: option.splits list.splits if_splits elim!: recv.elims)

text \<open>\<^verbatim>\<open>SubscriberOperationX.Deregister\<close>. The operation is registered already.\<close>

definition Subscriber_Deregister ::
  "UOctet list \<Rightarrow> OperationContext \<times> OperationX \<Rightarrow> OperationX call" where
  "Subscriber_Deregister body s =
     (case s of (ictx, op) \<Rightarrow>
        if status op \<noteq> REGISTERED then Some ((None, Some BadStatus), ictx, op)
        else
          (let op1 = op\<lparr>status := DEREGISTER_INITIATED\<rparr>;
               msg0 = outMessage ictx op1 MAL_INTERACTIONTYPE_PUBSUB
                        MAL_IP_STAGE_PUBSUB_DEREGISTER body
           in case Send (Ctx ictx) msg0 of
                (Some err, ctx2) \<Rightarrow>
                  Some ((None, Some err), finalize (ictx\<lparr>Ctx := ctx2\<rparr>, op1))
              | (None, ctx2) \<Rightarrow> Deregister_wait (ictx\<lparr>Ctx := ctx2\<rparr>, op1)))"

text \<open>\<^verbatim>\<open>PublisherOperationX.Deregister\<close>.\<close>

definition Publisher_Deregister ::
  "UOctet list \<Rightarrow> OperationContext \<times> OperationX \<Rightarrow> OperationX call" where
  "Publisher_Deregister body s =
     (case s of (ictx, op) \<Rightarrow>
        if status op \<noteq> REGISTERED then Some ((None, Some BadStatus), ictx, op)
        else
          (let op1 = op\<lparr>status := DEREGISTER_INITIATED\<rparr>;
               msg0 = outMessage ictx op1 MAL_INTERACTIONTYPE_PUBSUB
                        MAL_IP_STAGE_PUBSUB_PUBLISH_DEREGISTER body
           in case Send (Ctx ictx) msg0 of
                (Some err, ctx2) \<Rightarrow>
                  Some ((None, Some err), finalize (ictx\<lparr>Ctx := ctx2\<rparr>, op1))
              | (None, ctx2) \<Rightarrow>
                  (let ictx2 = ictx\<lparr>Ctx := ctx2\<rparr>
                   in case recv (ch op1) of
                        None \<Rightarrow> None
                      | Some (None, c) \<Rightarrow>
                          Some ((None, Some OperationEnded), finalize (ictx2, op1\<lparr>ch := c\<rparr>))
                      | Some (Some msg, c) \<Rightarrow>
                          (let op2 = op1\<lparr>ch := c\<rparr>
                           in if InteractionStage msg \<noteq>
                                   MAL_IP_STAGE_PUBSUB_PUBLISH_DEREGISTER_ACK
                              then Some ((None, Some BadStage), finalize (ictx2, op2))
                              else if IsErrorMessage msg
                              then Some ((Some msg, Some ErrorMessage), finalize (ictx2, op2))
                              else Some ((Some msg, None), finalize (ictx2, op2))))))"

text \<open>\<^verbatim>\<open>PublisherOperationX.Publish\<close> and \<^verbatim>\<open>SendOperationX.Send\<close> wait for no reply.\<close>

definition Publish ::
  "UOctet list \<Rightarrow> OperationContext \<times> OperationX \<Rightarrow>
   error option \<times> OperationContext \<times> OperationX" where
  "Publish body s =
     (case s of (ictx, op) \<Rightarrow>
        if status op \<noteq> REGISTERED then (Some BadStatus, ictx, op)
        else
          (case Send (Ctx ictx)
                  (outMessage ictx op MAL_INTERACTIONTYPE_PUBSUB MAL_IP_STAGE_PUBSUB_PUBLISH body) of
             (Some err, ctx2) \<Rightarrow> (Some err, finalize (ictx\<lparr>Ctx := ctx2\<rparr>, op))
           | (None, ctx2) \<Rightarrow> (None, ictx\<lparr>Ctx := ctx2\<rparr>, op)))"

definition SendOperation_Send ::
  "UOctet list \<Rightarrow> OperationContext \<times> OperationX \<Rightarrow>
   error option \<times> OperationContext \<times> OperationX" where
  "SendOperation_Send body s =
     (case s of (ictx, op) \<Rightarrow>
        if status op \<noteq> CREATED then (Some BadStatus, ictx, op)
        else
          (case Send (Ctx ictx)
                  (outMessage ictx (op\<lparr>status := INITIATED\<rparr>)
                     MAL_INTERACTIONTYPE_SEND MAL_IP_STAGE_SEND body) of
             (err, ctx2) \<Rightarrow> (err, ictx\<lparr>Ctx := ctx2\<rparr>, op\<lparr>status := FINAL\<rparr>)))"

section \<open>The handler context\<close>

datatype handlerType =
    SEND_HANDLER
  | SUBMIT_HANDLER
  | REQUEST_HANDLER
  | INVOKE_HANDLER
  | PROGRESS_HANDLER
  | BROKER_HANDLER

text \<open>
  A \<^verbatim>\<open>Handler\<close> is a callback; here it is the reference of the callback, and what
  calling it returns is a parameter of \<open>OnMessage_returns\<close> below.
\<close>

type_synonym Handler = nat

record handlerDesc =
  handlerType :: handlerType
  area_d :: UShort
  areaVersion_d :: UOctet
  service_d :: UShort
  operation_d :: UShort
  handler :: Handler

text \<open>The struct \<^verbatim>\<open>HandlerContext\<close>; its channel \<^verbatim>\<open>ch\<close>, which no method uses, is left
  out.\<close>

record HandlerContext =
  Ctx_h :: Context
  Uri_h :: URI
  handlers_h :: "64 word \<rightharpoonup> handlerDesc"

text \<open>
  The function \<^verbatim>\<open>key(area, areaVersion, service, operation)\<close>, which gives the
  \<^verbatim>\<open>uint64\<close> key of the handler map, is not among the sources: every function that calls
  it takes it as the parameter \<open>key\<close>.
\<close>

type_synonym keyfun = "UShort \<Rightarrow> UOctet \<Rightarrow> UShort \<Rightarrow> UShort \<Rightarrow> 64 word"

text \<open>\<^verbatim>\<open>HandlerContext.register\<close>.\<close>

definition register_h ::
  "keyfun \<Rightarrow> HandlerContext \<Rightarrow> handlerType \<Rightarrow> UShort \<Rightarrow> UOctet \<Rightarrow> UShort \<Rightarrow> UShort \<Rightarrow>
   Handler \<Rightarrow> error option \<times> HandlerContext" where
  "register_h key hctx hdltype a v s o' h =
     (case handlers_h hctx (key a v s o') of
        Some old \<Rightarrow> (Some DuplicateHandler, hctx)
      | None \<Rightarrow>
          (None, hctx\<lparr>handlers_h := (handlers_h hctx)(key a v s o' \<mapsto>
             \<lparr>handlerType = hdltype, area_d = a, areaVersion_d = v, service_d = s,
              operation_d = o', handler = h\<rparr>)\<rparr>))"

definition RegisterSendHandler ::
  "keyfun \<Rightarrow> HandlerContext \<Rightarrow> UShort \<Rightarrow> UOctet \<Rightarrow> UShort \<Rightarrow> UShort \<Rightarrow> Handler \<Rightarrow>
   error option \<times> HandlerContext" where
  "RegisterSendHandler key hctx a v s o' h = register_h key hctx SEND_HANDLER a v s o' h"

definition RegisterSubmitHandler ::
  "keyfun \<Rightarrow> HandlerContext \<Rightarrow> UShort \<Rightarrow> UOctet \<Rightarrow> UShort \<Rightarrow> UShort \<Rightarrow> Handler \<Rightarrow>
   error option \<times> HandlerContext" where
  "RegisterSubmitHandler key hctx a v s o' h = register_h key hctx SUBMIT_HANDLER a v s o' h"

definition RegisterRequestHandler ::
  "keyfun \<Rightarrow> HandlerContext \<Rightarrow> UShort \<Rightarrow> UOctet \<Rightarrow> UShort \<Rightarrow> UShort \<Rightarrow> Handler \<Rightarrow>
   error option \<times> HandlerContext" where
  "RegisterRequestHandler key hctx a v s o' h = register_h key hctx REQUEST_HANDLER a v s o' h"

definition RegisterInvokeHandler ::
  "keyfun \<Rightarrow> HandlerContext \<Rightarrow> UShort \<Rightarrow> UOctet \<Rightarrow> UShort \<Rightarrow> UShort \<Rightarrow> Handler \<Rightarrow>
   error option \<times> HandlerContext" where
  "RegisterInvokeHandler key hctx a v s o' h = register_h key hctx INVOKE_HANDLER a v s o' h"

definition RegisterProgressHandler ::
  "keyfun \<Rightarrow> HandlerContext \<Rightarrow> UShort \<Rightarrow> UOctet \<Rightarrow> UShort \<Rightarrow> UShort \<Rightarrow> Handler \<Rightarrow>
   error option \<times> HandlerContext" where
  "RegisterProgressHandler key hctx a v s o' h = register_h key hctx PROGRESS_HANDLER a v s o' h"

definition RegisterBrokerHandler ::
  "keyfun \<Rightarrow> HandlerContext \<Rightarrow> UShort \<Rightarrow> UOctet \<Rightarrow> UShort \<Rightarrow> UShort \<Rightarrow> Handler \<Rightarrow>
   error option \<times> HandlerContext" where
  "RegisterBrokerHandler key hctx a v s o' h = register_h key hctx BROKER_HANDLER a v s o' h"

text \<open>\<^verbatim>\<open>HandlerContext.getHandler\<close>: the handler, or the error (\<open>Inl\<close>).\<close>

definition getHandler ::
  "keyfun \<Rightarrow> HandlerContext \<Rightarrow> handlerType \<Rightarrow> UShort \<Rightarrow> UOctet \<Rightarrow> UShort \<Rightarrow> UShort \<Rightarrow>
   error + Handler" where
  "getHandler key hctx hdltype a v s o' =
     (case handlers_h hctx (key a v s o') of
        Some to \<Rightarrow>
          if handlerType to = hdltype then Inr (handler to) else Inl BadHandlerType
      | None \<Rightarrow> Inl HandlerNotRegistered)"

text \<open>
  Modelled from the spec: the struct \<^verbatim>\<open>TransactionX\<close> and the seven transaction types
  that embed it are not among the sources. The spec: a transaction is "owning Context,
  local URI, remote URI, transaction_id, service coordinates", with the variants Send,
  Submit, Request, Invoke, Progress, Publisher and Subscriber. The fields are in the order
  of the literal \<^verbatim>\<open>TransactionX{hctx.Ctx, hctx.Uri, msg.UriFrom, msg.TransactionId,
  msg.ServiceArea, msg.AreaVersion, msg.Service, msg.Operation}\<close> of the source.
\<close>

record TransactionX =
  tx_ctx :: Context
  tx_uri :: URI
  tx_urifrom :: URI
  tx_tid :: ULong
  tx_area :: UShort
  tx_areaVersion :: UOctet
  tx_service :: UShort
  tx_operation :: UShort

datatype Transaction =
    SendTransactionX TransactionX
  | SubmitTransactionX TransactionX
  | RequestTransactionX TransactionX
  | InvokeTransactionX TransactionX
  | ProgressTransactionX TransactionX
  | PublisherTransactionX TransactionX
  | SubscriberTransactionX TransactionX

definition newTransactionX :: "HandlerContext \<Rightarrow> Message \<Rightarrow> TransactionX" where
  "newTransactionX hctx msg =
     \<lparr>tx_ctx = Ctx_h hctx, tx_uri = Uri_h hctx, tx_urifrom = UriFrom msg,
      tx_tid = MessageTransactionId msg, tx_area = ServiceArea msg,
      tx_areaVersion = AreaVersion msg, tx_service = Service msg,
      tx_operation = Operation msg\<rparr>"

text \<open>
  What \<^verbatim>\<open>HandlerContext.OnMessage\<close> does with a message: \<open>Call handler msg transaction\<close>
  is \<^verbatim>\<open>return handler(msg, transaction)\<close>, the one place where a callback is invoked;
  \<open>Return err\<close> is a return without any call.
\<close>

datatype dispatch =
    Call Handler Message Transaction
  | Return "error option"

text \<open>
  \<^verbatim>\<open>HandlerContext.OnMessage\<close>. The \<^verbatim>\<open>switch\<close> has one case for each of the six
  interaction types, and its \<^verbatim>\<open>default\<close> case, for a value that is none of the six
  constants, writes a debug line to the log and falls out of the \<^verbatim>\<open>switch\<close> to the final
  \<^verbatim>\<open>return nil\<close>: no handler is looked up, none is called, and no error is returned.
\<close>

definition OnMessage :: "keyfun \<Rightarrow> HandlerContext \<Rightarrow> Message \<Rightarrow> dispatch" where
  "OnMessage key hctx msg =
     (case InteractionType msg of
        MAL_INTERACTIONTYPE_SEND \<Rightarrow>
          (case getHandler key hctx SEND_HANDLER (ServiceArea msg) (AreaVersion msg)
                  (Service msg) (Operation msg) of
             Inl err \<Rightarrow> Return (Some err)
           | Inr h \<Rightarrow> Call h msg (SendTransactionX (newTransactionX hctx msg)))
      | MAL_INTERACTIONTYPE_SUBMIT \<Rightarrow>
          (case getHandler key hctx SUBMIT_HANDLER (ServiceArea msg) (AreaVersion msg)
                  (Service msg) (Operation msg) of
             Inl err \<Rightarrow> Return (Some err)
           | Inr h \<Rightarrow> Call h msg (SubmitTransactionX (newTransactionX hctx msg)))
      | MAL_INTERACTIONTYPE_REQUEST \<Rightarrow>
          (case getHandler key hctx REQUEST_HANDLER (ServiceArea msg) (AreaVersion msg)
                  (Service msg) (Operation msg) of
             Inl err \<Rightarrow> Return (Some err)
           | Inr h \<Rightarrow> Call h msg (RequestTransactionX (newTransactionX hctx msg)))
      | MAL_INTERACTIONTYPE_INVOKE \<Rightarrow>
          (case getHandler key hctx INVOKE_HANDLER (ServiceArea msg) (AreaVersion msg)
                  (Service msg) (Operation msg) of
             Inl err \<Rightarrow> Return (Some err)
           | Inr h \<Rightarrow> Call h msg (InvokeTransactionX (newTransactionX hctx msg)))
      | MAL_INTERACTIONTYPE_PROGRESS \<Rightarrow>
          (case getHandler key hctx PROGRESS_HANDLER (ServiceArea msg) (AreaVersion msg)
                  (Service msg) (Operation msg) of
             Inl err \<Rightarrow> Return (Some err)
           | Inr h \<Rightarrow> Call h msg (ProgressTransactionX (newTransactionX hctx msg)))
      | MAL_INTERACTIONTYPE_PUBSUB \<Rightarrow>
          (case getHandler key hctx BROKER_HANDLER (ServiceArea msg) (AreaVersion msg)
                  (Service msg) (Operation msg) of
             Inl err \<Rightarrow> Return (Some err)
           | Inr h \<Rightarrow>
               if InteractionStage msg = MAL_IP_STAGE_PUBSUB_PUBLISH_REGISTER \<or>
                  InteractionStage msg = MAL_IP_STAGE_PUBSUB_PUBLISH \<or>
                  InteractionStage msg = MAL_IP_STAGE_PUBSUB_PUBLISH_DEREGISTER
               then Call h msg (PublisherTransactionX (newTransactionX hctx msg))
               else if InteractionStage msg = MAL_IP_STAGE_PUBSUB_REGISTER \<or>
                       InteractionStage msg = MAL_IP_STAGE_PUBSUB_DEREGISTER
               then Call h msg (SubscriberTransactionX (newTransactionX hctx msg))
               else Return (Some BadStagePubSub))
      | InteractionType_other \<Rightarrow> Return None)"

text \<open>The error that \<^verbatim>\<open>OnMessage\<close> returns, given what a callback returns.\<close>

definition OnMessage_returns ::
  "(Handler \<Rightarrow> Message \<Rightarrow> Transaction \<Rightarrow> error option) \<Rightarrow> dispatch \<Rightarrow> error option" where
  "OnMessage_returns run d =
     (case d of Call h msg t \<Rightarrow> run h msg t | Return err \<Rightarrow> err)"

section \<open>Callers\<close>

text \<open>
  A caller that calls \<open>GetUpdate\<close> \<open>n\<close> times in a row and collects what the calls
  return; \<open>None\<close> when one of the calls never returns.
\<close>

fun GetUpdates ::
  "nat \<Rightarrow> OperationContext \<times> ProgressOperationX \<Rightarrow>
   ((Message option \<times> error option) list \<times> OperationContext \<times> ProgressOperationX) option" where
  "GetUpdates 0 s = Some ([], s)"
| "GetUpdates (Suc n) s =
     (case GetUpdate s of
        None \<Rightarrow> None
      | Some (r, s') \<Rightarrow>
          (case GetUpdates n s' of
             None \<Rightarrow> None
           | Some (rs, s'') \<Rightarrow> Some (r # rs, s'')))"

text \<open>
  A provider that registers handlers one after the other, going on after a registration
  that is rejected. A registration is the handler type, the four selectors and the
  callback.
\<close>

type_synonym registration = "handlerType \<times> UShort \<times> UOctet \<times> UShort \<times> UShort \<times> Handler"

fun register_all :: "keyfun \<Rightarrow> registration list \<Rightarrow> HandlerContext \<Rightarrow> HandlerContext" where
  "register_all key [] hctx = hctx"
| "register_all key ((t, a, v, s, o', h) # rs) hctx =
     register_all key rs (snd (register_h key hctx t a v s o' h))"

text \<open>
  The handler type that matches an interaction type, in the spec's words "its registered
  handler_type matches interaction_type": the type under which \<^verbatim>\<open>RegisterSendHandler\<close>,
  ..., \<^verbatim>\<open>RegisterBrokerHandler\<close> register a handler for that interaction. No handler
  type matches an interaction type that is none of the six.
\<close>

fun matching_handlerType :: "InteractionType \<Rightarrow> handlerType option" where
  "matching_handlerType MAL_INTERACTIONTYPE_SEND = Some SEND_HANDLER"
| "matching_handlerType MAL_INTERACTIONTYPE_SUBMIT = Some SUBMIT_HANDLER"
| "matching_handlerType MAL_INTERACTIONTYPE_REQUEST = Some REQUEST_HANDLER"
| "matching_handlerType MAL_INTERACTIONTYPE_INVOKE = Some INVOKE_HANDLER"
| "matching_handlerType MAL_INTERACTIONTYPE_PROGRESS = Some PROGRESS_HANDLER"
| "matching_handlerType MAL_INTERACTIONTYPE_PUBSUB = Some BROKER_HANDLER"
| "matching_handlerType InteractionType_other = None"

text \<open>
  The transaction variant of the five interaction types that have one variant each; for
  PUBSUB the variant depends on the stage.
\<close>

fun transaction_of :: "InteractionType \<Rightarrow> (TransactionX \<Rightarrow> Transaction) option" where
  "transaction_of MAL_INTERACTIONTYPE_SEND = Some SendTransactionX"
| "transaction_of MAL_INTERACTIONTYPE_SUBMIT = Some SubmitTransactionX"
| "transaction_of MAL_INTERACTIONTYPE_REQUEST = Some RequestTransactionX"
| "transaction_of MAL_INTERACTIONTYPE_INVOKE = Some InvokeTransactionX"
| "transaction_of MAL_INTERACTIONTYPE_PROGRESS = Some ProgressTransactionX"
| "transaction_of MAL_INTERACTIONTYPE_PUBSUB = None"
| "transaction_of InteractionType_other = None"

text \<open>The descriptor that \<open>register_h\<close> stores for a registration.\<close>

fun descriptor :: "registration \<Rightarrow> handlerDesc" where
  "descriptor (t, a, v, s, o', h) =
     \<lparr>handlerType = t, area_d = a, areaVersion_d = v, service_d = s, operation_d = o',
      handler = h\<rparr>"

text \<open>Whether a registration is for the four selectors of a message.\<close>

fun registered_for :: "Message \<Rightarrow> registration \<Rightarrow> bool" where
  "registered_for msg (t, a, v, s, o', h) =
     (a = ServiceArea msg \<and> v = AreaVersion msg \<and> s = Service msg \<and> o' = Operation msg)"

text \<open>
  What the spec asks of a call whose queue is closed while it waits: the call returns, with
  no message and the error \<open>OperationEnded\<close>, and the operation is finalized, that is, its
  status is \<open>FINAL\<close> and its transaction id is no longer in the context's map.
\<close>

definition ends_finalized :: "'a OperationX_scheme call \<Rightarrow> bool" where
  "ends_finalized r =
     (case r of
        None \<Rightarrow> False
      | Some (res, ictx, op) \<Rightarrow>
          res = (None, Some OperationEnded) \<and> status op = FINAL \<and>
          handlers ictx (tid op) = None)"

section \<open>The inputs of the spec's scenarios\<close>

text \<open>
  The end-to-end scenarios of the spec run on a loopback transport with service area,
  area version, service and operation all 1. These are their objects: a transport that
  accepts every message, a fresh operation context, an operation with transaction id 1
  in a given status and with a given inbound queue, a reply of the provider, and an empty
  handler context.
\<close>

definition loopback :: Context where
  "loopback = \<lparr>transport = (\<lambda>msg. None), outbound = []\<rparr>"

definition consumer_uri :: URI where
  "consumer_uri = ''maltcp://127.0.0.1:16001/consumer''"

definition provider_uri :: URI where
  "provider_uri = ''maltcp://127.0.0.1:16001/provider''"

definition consumer :: OperationContext where
  "consumer = \<lparr>Ctx = loopback, Uri = consumer_uri, handlers = Map.empty, txcounter = 0\<rparr>"

definition reply :: "InteractionType \<Rightarrow> InteractionStage \<Rightarrow> bool \<Rightarrow> UOctet list \<Rightarrow> Message" where
  "reply itype stage err body =
     \<lparr>UriFrom = provider_uri, UriTo = consumer_uri,
      InteractionType = itype, InteractionStage = stage, ServiceArea = 1, AreaVersion = 1,
      Service = 1, Operation = 1, MessageTransactionId = 1, IsErrorMessage = err,
      Body = body\<rparr>"

definition inbound :: "Message list \<Rightarrow> bool \<Rightarrow> chan" where
  "inbound msgs cl = \<lparr>queue = msgs, is_closed = cl\<rparr>"

definition consumer_op :: "status \<Rightarrow> chan \<Rightarrow> OperationX" where
  "consumer_op st c =
     \<lparr>self = 0, tid = 1, ch = Some c, urito = provider_uri, area = 1, areaVersion = 1,
      service = 1, operation = 1, status = st\<rparr>"

definition consumer_iop :: "status \<Rightarrow> chan \<Rightarrow> Message option \<Rightarrow> InvokeOperationX" where
  "consumer_iop st c r =
     \<lparr>self = 0, tid = 1, ch = Some c, urito = provider_uri, area = 1, areaVersion = 1,
      service = 1, operation = 1, status = st, response = r\<rparr>"

definition provider :: HandlerContext where
  "provider = \<lparr>Ctx_h = loopback, Uri_h = provider_uri, handlers_h = Map.empty\<rparr>"

text \<open>
  A message for the provider, on area 1, version 1, service 1 and a given operation, and
  the registrations of a provider: a submit handler for operation 1, a broker handler for
  operation 2, and a request handler for operation 1 again, which comes too late.
\<close>

definition provider_msg :: "InteractionType \<Rightarrow> InteractionStage \<Rightarrow> UShort \<Rightarrow> Message" where
  "provider_msg itype stage o' =
     \<lparr>UriFrom = consumer_uri, UriTo = provider_uri,
      InteractionType = itype, InteractionStage = stage, ServiceArea = 1, AreaVersion = 1,
      Service = 1, Operation = o', MessageTransactionId = 1, IsErrorMessage = False,
      Body = []\<rparr>"

definition provider_registrations :: "registration list" where
  "provider_registrations =
     [(SUBMIT_HANDLER, 1, 1, 1, 1, 5), (BROKER_HANDLER, 1, 1, 1, 2, 6),
      (REQUEST_HANDLER, 1, 1, 1, 1, 7)]"

text \<open>
  Modelled from the spec: the function \<^verbatim>\<open>key\<close> is not among the sources, and the spec
  says of it only that the lookup key is the 4-tuple (area, area_version, service,
  operation). \<open>key56\<close> is one such key, the four selectors side by side in 56 of the 64
  bits; it stands in for \<^verbatim>\<open>key\<close> where a theorem is applied to the scenarios' inputs.
\<close>

definition key56 :: keyfun where
  "key56 a v s o' =
     word_of_nat (((unat a * 256 + unat v) * 65536 + unat s) * 65536 + unat o')"

section \<open>Registration and transaction ids\<close>

lemma handlers_clear_absent:
  assumes "handlers ictx t = None"
  shows "ictx\<lparr>handlers := (handlers ictx)(t := None)\<rparr> = ictx"
proof -
  from assms have "(handlers ictx)(t := None) = handlers ictx"
    by (simp add: fun_upd_idem)
  then show ?thesis by simp
qed

text \<open>
  C8. A registration that finds its key taken is rejected and changes nothing: \<open>register\<close>
  with a transaction id that is in the map returns \<open>DuplicateTransaction\<close> and the context
  as it was, \<open>deregister\<close> of an id that is not in the map returns \<open>UnknownTransaction\<close> and
  the context as it was, and \<open>register_h\<close> with a key that is taken returns
  \<open>DuplicateHandler\<close> and the handler context as it was, so that the descriptor registered
  before is still the one under the key.
\<close>

theorem duplicate_registration_rejected:
  "(handlers ictx t = Some old \<longrightarrow>
      register ictx t h = (Some DuplicateTransaction, ictx)) \<and>
   (handlers ictx' t' = None \<longrightarrow>
      deregister ictx' t' = (Some UnknownTransaction, ictx')) \<and>
   (handlers_h hctx (key a v s o') = Some d \<longrightarrow>
      register_h key hctx hdltype a v s o' h' = (Some DuplicateHandler, hctx) \<and>
      handlers_h (snd (register_h key hctx hdltype a v s o' h')) (key a v s o') = Some d)"
  by (simp add: register_def deregister_def register_h_def)

theorem duplicate_registration_rejected_witness:
  "register (snd (register consumer 1 7)) 1 8 =
     (Some DuplicateTransaction, snd (register consumer 1 7)) \<and>
   deregister consumer 1 = (Some UnknownTransaction, consumer) \<and>
   register_h key56 (snd (RegisterSubmitHandler key56 provider 1 1 1 1 5))
       REQUEST_HANDLER 1 1 1 1 6 =
     (Some DuplicateHandler, snd (RegisterSubmitHandler key56 provider 1 1 1 1 5)) \<and>
   handler (the (handlers_h (snd (register_h key56
       (snd (RegisterSubmitHandler key56 provider 1 1 1 1 5))
       REQUEST_HANDLER 1 1 1 1 6)) (key56 1 1 1 1))) = 5"
proof -
  let ?d = "\<lparr>handlerType = SUBMIT_HANDLER, area_d = 1, areaVersion_d = 1, service_d = 1,
             operation_d = 1, handler = 5\<rparr>"
  have h1: "handlers (snd (register consumer 1 7)) 1 = Some 7"
    by (simp add: register_def consumer_def)
  have h2: "handlers consumer 1 = None"
    by (simp add: consumer_def)
  have h3: "handlers_h (snd (RegisterSubmitHandler key56 provider 1 1 1 1 5)) (key56 1 1 1 1)
              = Some ?d"
    by (simp add: RegisterSubmitHandler_def register_h_def provider_def)
  from duplicate_registration_rejected
         [of "snd (register consumer 1 7)" 1 7 8 consumer 1
             "snd (RegisterSubmitHandler key56 provider 1 1 1 1 5)" key56 1 1 1 1 ?d
             REQUEST_HANDLER 6]
       h1 h2 h3
  show ?thesis by simp
qed

lemma TransactionIds_eq:
  "TransactionIds n ictx = map (\<lambda>k. txcounter ictx + of_nat (Suc k)) [0..<n]"
proof (induction n arbitrary: ictx)
  case 0
  show ?case by simp
next
  case (Suc n)
  have "[0..<Suc n] = 0 # map Suc [0..<n]"
    by (simp add: upt_conv_Cons map_Suc_upt del: upt_Suc)
  then have "map (\<lambda>k. txcounter ictx + of_nat (Suc k)) [0..<Suc n]
      = (txcounter ictx + 1) # map (\<lambda>k. (txcounter ictx + 1) + of_nat (Suc k)) [0..<n]"
    by (simp add: o_def add.assoc add.commute del: upt_Suc)
  then show ?case
    using Suc.IH [of "ictx\<lparr>txcounter := txcounter ictx + 1\<rparr>"]
    by (simp add: TransactionId_def del: upt_Suc of_nat_Suc)
qed

lemma TransactionIds_length: "length (TransactionIds n ictx) = n"
  by (simp add: TransactionIds_eq)

lemma TransactionIds_nth:
  "i < n \<Longrightarrow> TransactionIds n ictx ! i = txcounter ictx + of_nat (Suc i)"
  by (simp add: TransactionIds_eq del: upt_Suc of_nat_Suc)

lemma of_nat_64_inj:
  assumes "(of_nat j :: 64 word) = of_nat k" and "j < 2 ^ 64" and "k < 2 ^ 64"
  shows "j = k"
proof -
  from assms(1) have "unat (of_nat j :: 64 word) = unat (of_nat k :: 64 word)" by simp
  with assms(2,3) show ?thesis by (simp add: unat_of_nat)
qed

lemma TransactionIds_distinct:
  assumes "n \<le> 2 ^ 64"
  shows "distinct (TransactionIds n ictx)"
proof -
  have "inj_on (\<lambda>k. txcounter ictx + (of_nat (Suc k) :: 64 word)) (set [0..<n])"
  proof (rule inj_onI)
    fix j k
    assume j: "j \<in> set [0..<n]" and k: "k \<in> set [0..<n]"
      and e: "txcounter ictx + (of_nat (Suc j) :: 64 word) = txcounter ictx + of_nat (Suc k)"
    from e have "(of_nat j :: 64 word) = of_nat k" by simp
    moreover from j k assms have "j < 2 ^ 64" "k < 2 ^ 64" by auto
    ultimately show "j = k" by (rule of_nat_64_inj)
  qed
  then show ?thesis
    by (simp add: TransactionIds_eq distinct_map del: upt_Suc of_nat_Suc)
qed

lemma TransactionIds_increasing:
  assumes "unat (txcounter ictx) + n < 2 ^ 64"
  shows "sorted_wrt (<) (TransactionIds n ictx)"
proof -
  have u: "unat (txcounter ictx + of_nat (Suc k)) = unat (txcounter ictx) + Suc k"
    if "k < n" for k
  proof -
    from that assms have b: "unat (txcounter ictx) + Suc k < 2 ^ 64" by simp
    then have "Suc k < 2 ^ 64" by simp
    then have "unat (of_nat (Suc k) :: 64 word) = Suc k"
      by (simp add: unat_of_nat del: of_nat_Suc)
    with b show ?thesis
      using unat_add_lem [of "txcounter ictx" "of_nat (Suc k) :: 64 word"]
      by (simp del: of_nat_Suc)
  qed
  have "TransactionIds n ictx ! i < TransactionIds n ictx ! j" if "i < j" "j < n" for i j
    using that by (simp add: TransactionIds_nth word_less_nat_alt u del: of_nat_Suc)
  then show ?thesis
    by (simp add: sorted_wrt_iff_nth_less TransactionIds_length)
qed

text \<open>
  C4, as the code has it. A call of \<open>TransactionId\<close> returns the counter plus one, in
  64-bit arithmetic, and leaves that value in the counter; on a fresh context the first
  call returns 1. \<open>n\<close> calls in a row return \<open>n\<close> ids; the ids are pairwise distinct as long
  as \<open>n\<close> is at most \<open>2 ^ 64\<close>, and strictly increasing in issuance order as long as the
  counter does not wrap, that is, the counter before the calls plus \<open>n\<close> is below
  \<open>2 ^ 64\<close>.
\<close>

theorem TransactionId_increments:
  "fst (TransactionId ictx) = txcounter ictx + 1 \<and>
   txcounter (snd (TransactionId ictx)) = txcounter ictx + 1 \<and>
   (txcounter ictx = 0 \<longrightarrow> fst (TransactionId ictx) = 1) \<and>
   length (TransactionIds n ictx) = n \<and>
   (n \<le> 2 ^ 64 \<longrightarrow> distinct (TransactionIds n ictx)) \<and>
   (unat (txcounter ictx) + n < 2 ^ 64 \<longrightarrow> sorted_wrt (<) (TransactionIds n ictx))"
  by (simp add: TransactionId_def TransactionIds_length TransactionIds_distinct
      TransactionIds_increasing)

theorem TransactionId_increments_witness:
  "txcounter consumer = 0 \<and> (3 :: nat) \<le> 2 ^ 64 \<and> unat (txcounter consumer) + 3 < 2 ^ 64 \<and>
   fst (TransactionId consumer) = 1 \<and>
   TransactionIds 3 consumer = [1, 2, 3] \<and>
   distinct (TransactionIds 3 consumer) \<and>
   sorted_wrt (<) (TransactionIds 3 consumer)"
proof -
  have h1: "txcounter consumer = 0" by (simp add: consumer_def)
  have h2: "(3 :: nat) \<le> 2 ^ 64" by simp
  have h3: "unat (txcounter consumer) + 3 < 2 ^ 64" by (simp add: consumer_def)
  have e: "TransactionIds 3 consumer = [1, 2, 3]"
    by (simp add: numeral_3_eq_3 TransactionId_def consumer_def)
  from TransactionId_increments [of consumer 3] h1 h2 h3 e
  show ?thesis by simp
qed

text \<open>
  The claim C4 as stated fails where the 64-bit counter wraps. Of \<open>2 ^ 64\<close> calls in a
  row on a fresh context, the last but one returns \<open>2 ^ 64 - 1\<close> and the last returns 0.
  The same two calls, on a context whose counter is \<open>2 ^ 64 - 2\<close>: the ids are not
  increasing.
\<close>

theorem TransactionId_wraps_counterexample:
  "txcounter consumer = 0 \<and>
   TransactionIds 18446744073709551616 consumer ! 18446744073709551614
     = 18446744073709551615 \<and>
   TransactionIds 18446744073709551616 consumer ! 18446744073709551615 = 0 \<and>
   TransactionIds (Suc (Suc 0)) (consumer\<lparr>txcounter := 18446744073709551614\<rparr>) =
     [18446744073709551615, 0] \<and>
   \<not> sorted_wrt (<)
       (TransactionIds (Suc (Suc 0)) (consumer\<lparr>txcounter := 18446744073709551614\<rparr>))"
proof -
  have a: "TransactionIds 18446744073709551616 consumer ! 18446744073709551614
     = 18446744073709551615"
    by (simp add: TransactionIds_nth consumer_def)
  have b: "TransactionIds 18446744073709551616 consumer ! 18446744073709551615 = 0"
    by (simp add: TransactionIds_nth consumer_def)
  have c: "TransactionIds (Suc (Suc 0)) (consumer\<lparr>txcounter := 18446744073709551614\<rparr>) =
     [18446744073709551615, 0]"
    by (simp add: TransactionId_def)
  from a b c show ?thesis by (simp add: consumer_def)
qed

section \<open>Finalize, Close and Reset\<close>

lemma finalize_registered:
  "ch op \<noteq> None \<Longrightarrow>
   finalize (ictx, op) =
     (ictx\<lparr>handlers := (handlers ictx)(tid op := None)\<rparr>, op\<lparr>status := FINAL\<rparr>)"
  by (cases "handlers ictx (tid op)")
     (auto simp: finalize_def deregister_def handlers_clear_absent)

lemma outMessage_status [simp]:
  "outMessage ictx (op\<lparr>status := st\<rparr>) itype stage body = outMessage ictx op itype stage body"
  by (simp add: outMessage_def)

lemma outMessage_ch [simp]:
  "outMessage ictx (op\<lparr>ch := c\<rparr>) itype stage body = outMessage ictx op itype stage body"
  by (simp add: outMessage_def)

lemma outMessage_txcounter [simp]:
  "outMessage (ictx\<lparr>txcounter := n\<rparr>) op itype stage body = outMessage ictx op itype stage body"
  by (simp add: outMessage_def)

lemma Reset_FINAL:
  "status op = FINAL \<Longrightarrow>
   Reset (ictx, op) =
     (None, ictx\<lparr>txcounter := txcounter ictx + 1\<rparr>,
      op\<lparr>tid := txcounter ictx + 1, status := CREATED\<rparr>)"
  by (simp add: Reset_def TransactionId_def)

lemma Close_closed:
  "status op = CLOSED \<Longrightarrow> Close (ictx, op) = (None, ictx, op)"
  by (simp add: Close_def)

lemma Close_open:
  "status op \<noteq> CLOSED \<Longrightarrow> ch op = Some c \<Longrightarrow>
   Close (ictx, op) =
     (fst (deregister ictx (tid op)), snd (deregister ictx (tid op)),
      op\<lparr>status := CLOSED, ch := None\<rparr>)"
  by (simp add: Close_def split: prod.splits)

lemma Close_twice:
  "Close (snd (Close (ictx, op))) = (None, snd (Close (ictx, op)))"
  by (cases "ch op") (auto simp: Close_def split: prod.splits)

section \<open>Submit\<close>


lemma Submit_reply:
  assumes "status op = CREATED"
    and "handlers ictx (tid op) = None"
    and "transport (Ctx ictx)
           (outMessage ictx op MAL_INTERACTIONTYPE_SUBMIT MAL_IP_STAGE_SUBMIT body) = None"
    and "ch op = Some c" and "queue c = m # rest"
  shows "Submit body (ictx, op) =
     Some ((if InteractionStage m \<noteq> MAL_IP_STAGE_SUBMIT_ACK then (None, Some BadStage)
            else if IsErrorMessage m then (Some m, Some ErrorMessage)
            else (Some m, None)),
           ictx\<lparr>Ctx := (Ctx ictx)\<lparr>outbound := outbound (Ctx ictx) @
               [outMessage ictx op MAL_INTERACTIONTYPE_SUBMIT MAL_IP_STAGE_SUBMIT body]\<rparr>\<rparr>,
           op\<lparr>status := FINAL, ch := Some (c\<lparr>queue := rest\<rparr>)\<rparr>)"
  using assms
  by (simp add: Submit_def Let_def register_def Send_def finalize_registered fun_upd_idem)

text \<open>
  The other ways out of \<open>Submit\<close>: a transaction id that is taken, a send that fails,
  and a queue that stays empty and open, on which the call does not return.
\<close>

lemma Submit_duplicate:
  assumes "status op = CREATED" and "handlers ictx (tid op) = Some other"
    and "ch op = Some c"
  shows "Submit body (ictx, op) =
     Some ((None, Some DuplicateTransaction),
           ictx\<lparr>handlers := (handlers ictx)(tid op := None)\<rparr>, op\<lparr>status := FINAL\<rparr>)"
  using assms by (simp add: Submit_def Let_def register_def finalize_registered)

lemma Submit_send_fails:
  assumes "status op = CREATED" and "handlers ictx (tid op) = None"
    and "transport (Ctx ictx)
           (outMessage ictx op MAL_INTERACTIONTYPE_SUBMIT MAL_IP_STAGE_SUBMIT body) = Some err"
    and "ch op = Some c"
  shows "Submit body (ictx, op) =
     Some ((None, Some err),
           ictx\<lparr>Ctx := (Ctx ictx)\<lparr>outbound := outbound (Ctx ictx) @
               [outMessage ictx op MAL_INTERACTIONTYPE_SUBMIT MAL_IP_STAGE_SUBMIT body]\<rparr>\<rparr>,
           op\<lparr>status := FINAL\<rparr>)"
  using assms
  by (simp add: Submit_def Let_def register_def Send_def finalize_registered fun_upd_idem)

lemma Submit_waits:
  assumes "status op = CREATED" and "handlers ictx (tid op) = None"
    and "transport (Ctx ictx)
           (outMessage ictx op MAL_INTERACTIONTYPE_SUBMIT MAL_IP_STAGE_SUBMIT body) = None"
    and "ch op = Some c" and "queue c = []" and "\<not> is_closed c"
  shows "Submit body (ictx, op) = None"
  using assms by (simp add: Submit_def Let_def register_def Send_def)



text \<open>
  C10. \<open>Reset\<close> on an operation in \<open>FINAL\<close> returns no error, takes a fresh transaction id
  from the context's counter and sets the status to \<open>CREATED\<close>: the operation afterwards
  is the operation before with these two fields changed, so the remote URI, the service
  coordinates and the channel with its queued messages are as they were (\<open>finalize\<close>
  did not close or empty the channel either). A message left in the queue is what the
  next waiting call takes: \<open>Submit\<close> after \<open>Reset\<close> treats the stale message \<open>m\<close> as its
  reply.
\<close>

theorem Reset_keeps_queue:
  fixes op :: "'a OperationX_scheme" and sop :: OperationX
  assumes "status op = FINAL"
    and "status sop = FINAL"
    and "ch sop = Some c" and "queue c = m # rest"
    and "handlers ictx (txcounter ictx + 1) = None"
    and "transport (Ctx ictx)
           (outMessage ictx (sop\<lparr>tid := txcounter ictx + 1\<rparr>)
              MAL_INTERACTIONTYPE_SUBMIT MAL_IP_STAGE_SUBMIT body) = None"
  shows "Reset (ictx, op) =
           (None, ictx\<lparr>txcounter := txcounter ictx + 1\<rparr>,
            op\<lparr>tid := txcounter ictx + 1, status := CREATED\<rparr>) \<and>
         ch (snd (snd (Reset (ictx, op)))) = ch op \<and>
         ch (snd (finalize (ictx, op))) = ch op \<and>
         recv (ch (snd (snd (Reset (ictx, sop))))) = Some (Some m, Some (c\<lparr>queue := rest\<rparr>)) \<and>
         Submit body (snd (Reset (ictx, sop))) =
           Some ((if InteractionStage m = MAL_IP_STAGE_SUBMIT_ACK
                  then (Some m, if IsErrorMessage m then Some ErrorMessage else None)
                  else (None, Some BadStage)),
                 ictx\<lparr>txcounter := txcounter ictx + 1,
                      Ctx := (Ctx ictx)\<lparr>outbound := outbound (Ctx ictx) @
                        [outMessage ictx (sop\<lparr>tid := txcounter ictx + 1\<rparr>)
                           MAL_INTERACTIONTYPE_SUBMIT MAL_IP_STAGE_SUBMIT body]\<rparr>\<rparr>,
                 sop\<lparr>tid := txcounter ictx + 1, status := FINAL,
                     ch := Some (c\<lparr>queue := rest\<rparr>)\<rparr>)"
proof -
  let ?ictx = "ictx\<lparr>txcounter := txcounter ictx + 1\<rparr>"
  let ?sop = "sop\<lparr>tid := txcounter ictx + 1, status := CREATED\<rparr>"
  have r: "Reset (ictx, sop) = (None, ?ictx, ?sop)"
    using assms(2) by (rule Reset_FINAL)
  have o: "outMessage ?ictx ?sop MAL_INTERACTIONTYPE_SUBMIT MAL_IP_STAGE_SUBMIT body
         = outMessage ictx (sop\<lparr>tid := txcounter ictx + 1\<rparr>)
              MAL_INTERACTIONTYPE_SUBMIT MAL_IP_STAGE_SUBMIT body"
    by (simp add: outMessage_def)
  have s: "Submit body (?ictx, ?sop) =
     Some ((if InteractionStage m \<noteq> MAL_IP_STAGE_SUBMIT_ACK then (None, Some BadStage)
            else if IsErrorMessage m then (Some m, Some ErrorMessage)
            else (Some m, None)),
           ?ictx\<lparr>Ctx := (Ctx ?ictx)\<lparr>outbound := outbound (Ctx ?ictx) @
               [outMessage ?ictx ?sop MAL_INTERACTIONTYPE_SUBMIT MAL_IP_STAGE_SUBMIT body]\<rparr>\<rparr>,
           ?sop\<lparr>status := FINAL, ch := Some (c\<lparr>queue := rest\<rparr>)\<rparr>)"
    by (rule Submit_reply) (use assms o in simp_all)
  have c1: "Reset (ictx, op) =
           (None, ictx\<lparr>txcounter := txcounter ictx + 1\<rparr>,
            op\<lparr>tid := txcounter ictx + 1, status := CREATED\<rparr>)"
    using assms(1) by (rule Reset_FINAL)
  have c2: "ch (snd (snd (Reset (ictx, op)))) = ch op"
    by (simp add: c1)
  have c3: "ch (snd (finalize (ictx, op))) = ch op"
    by (simp add: finalize_def)
  have c4: "recv (ch (snd (snd (Reset (ictx, sop))))) = Some (Some m, Some (c\<lparr>queue := rest\<rparr>))"
    using assms(3,4) by (simp add: r)
  have c5: "Submit body (snd (Reset (ictx, sop))) =
           Some ((if InteractionStage m = MAL_IP_STAGE_SUBMIT_ACK
                  then (Some m, if IsErrorMessage m then Some ErrorMessage else None)
                  else (None, Some BadStage)),
                 ictx\<lparr>txcounter := txcounter ictx + 1,
                      Ctx := (Ctx ictx)\<lparr>outbound := outbound (Ctx ictx) @
                        [outMessage ictx (sop\<lparr>tid := txcounter ictx + 1\<rparr>)
                           MAL_INTERACTIONTYPE_SUBMIT MAL_IP_STAGE_SUBMIT body]\<rparr>\<rparr>,
                 sop\<lparr>tid := txcounter ictx + 1, status := FINAL,
                     ch := Some (c\<lparr>queue := rest\<rparr>)\<rparr>)"
    by (simp add: r s o)
  from c1 c2 c3 c4 c5 show ?thesis by blast
qed

theorem Reset_keeps_queue_witness:
  "Reset (consumer, consumer_op FINAL
      (inbound [reply MAL_INTERACTIONTYPE_SUBMIT MAL_IP_STAGE_SUBMIT_ACK False [9]] False)) =
     (None, consumer\<lparr>txcounter := 1\<rparr>,
      consumer_op CREATED
        (inbound [reply MAL_INTERACTIONTYPE_SUBMIT MAL_IP_STAGE_SUBMIT_ACK False [9]] False)) \<and>
   fst (the (Submit [1] (snd (Reset (consumer, consumer_op FINAL
      (inbound [reply MAL_INTERACTIONTYPE_SUBMIT MAL_IP_STAGE_SUBMIT_ACK False [9]] False)))))) =
     (Some (reply MAL_INTERACTIONTYPE_SUBMIT MAL_IP_STAGE_SUBMIT_ACK False [9]), None)"
proof -
  let ?m = "reply MAL_INTERACTIONTYPE_SUBMIT MAL_IP_STAGE_SUBMIT_ACK False [9]"
  let ?op = "consumer_op FINAL (inbound [?m] False)"
  have h1: "status ?op = FINAL" by (simp add: consumer_op_def)
  have h3: "ch ?op = Some (inbound [?m] False)" by (simp add: consumer_op_def)
  have h4: "queue (inbound [?m] False) = ?m # []" by (simp add: inbound_def)
  have h5: "handlers consumer (txcounter consumer + 1) = None" by (simp add: consumer_def)
  have h6: "transport (Ctx consumer)
           (outMessage consumer (?op\<lparr>tid := txcounter consumer + 1\<rparr>)
              MAL_INTERACTIONTYPE_SUBMIT MAL_IP_STAGE_SUBMIT [1]) = None"
    by (simp add: consumer_def loopback_def)
  note t = Reset_keeps_queue [OF h1 h1 h3 h4 h5 h6]
  have a: "Reset (consumer, ?op) =
     (None, consumer\<lparr>txcounter := 1\<rparr>, consumer_op CREATED (inbound [?m] False))"
    using t [THEN conjunct1] by (simp add: consumer_op_def consumer_def)
  have b: "fst (the (Submit [1] (snd (Reset (consumer, ?op))))) = (Some ?m, None)"
    using t [THEN conjunct2, THEN conjunct2, THEN conjunct2, THEN conjunct2]
    by (simp add: reply_def)
  from a b show ?thesis by (rule conjI)
qed

text \<open>
  C3, where the code departs from the claim. \<open>Close\<close> sets the status to \<open>CLOSED\<close> and
  only then tests whether the status is \<open>CREATED\<close> or \<open>FINAL\<close>, so the test never holds
  and \<open>deregister\<close> is always called. An operation in \<open>CREATED\<close> (never registered) or in
  \<open>FINAL\<close> (deregistered by \<open>finalize\<close>) is not in the map, and \<open>Close\<close> returns the error
  \<open>UnknownTransaction\<close>: for the operation that \<open>NewOperation\<close> makes on a fresh context,
  and for the operation that a completed \<open>Submit\<close> has left in \<open>FINAL\<close>.
\<close>

theorem Close_returns_error_in_CREATED_and_FINAL:
  "status (snd (NewOperation consumer 0 provider_uri 1 1 1 1)) = CREATED \<and>
   fst (Close (NewOperation consumer 0 provider_uri 1 1 1 1)) = Some UnknownTransaction \<and>
   status (snd (snd (the (Submit [1] (consumer, consumer_op CREATED
      (inbound [reply MAL_INTERACTIONTYPE_SUBMIT MAL_IP_STAGE_SUBMIT_ACK False []] False))))))
     = FINAL \<and>
   fst (Close (snd (the (Submit [1] (consumer, consumer_op CREATED
      (inbound [reply MAL_INTERACTIONTYPE_SUBMIT MAL_IP_STAGE_SUBMIT_ACK False []] False))))))
     = Some UnknownTransaction"
proof -
  let ?m = "reply MAL_INTERACTIONTYPE_SUBMIT MAL_IP_STAGE_SUBMIT_ACK False []"
  let ?op = "consumer_op CREATED (inbound [?m] False)"
  have a: "NewOperation consumer 0 provider_uri 1 1 1 1 =
             (consumer\<lparr>txcounter := 1\<rparr>, consumer_op CREATED (inbound [] False))"
    by (simp add: NewOperation_def TransactionId_def consumer_def consumer_op_def inbound_def)
  have b: "fst (Close (consumer\<lparr>txcounter := 1\<rparr>, consumer_op CREATED (inbound [] False)))
             = Some UnknownTransaction"
    by (simp add: Close_def deregister_def consumer_def consumer_op_def)
  have c: "Submit [1] (consumer, ?op) =
     Some ((Some ?m, None),
           consumer\<lparr>Ctx := (Ctx consumer)\<lparr>outbound := outbound (Ctx consumer) @
               [outMessage consumer ?op MAL_INTERACTIONTYPE_SUBMIT MAL_IP_STAGE_SUBMIT [1]]\<rparr>\<rparr>,
           ?op\<lparr>status := FINAL, ch := Some ((inbound [?m] False)\<lparr>queue := []\<rparr>)\<rparr>)"
    using Submit_reply [of ?op consumer "[1]" "inbound [?m] False" ?m "[]"]
    by (simp add: consumer_op_def consumer_def loopback_def inbound_def reply_def)
  show ?thesis
    unfolding a c using b
    by (simp add: Close_def deregister_def consumer_def consumer_op_def)
qed

section \<open>Invoke\<close>

lemma Invoke_GetResponse_reply:
  fixes op :: InvokeOperationX
  assumes "status op = ACKNOWLEDGED" and "ch op = Some c" and "queue c = m # rest"
  shows "Invoke_GetResponse (ictx, op) =
     Some (if InteractionStage m = MAL_IP_STAGE_INVOKE_RESPONSE
           then ((Some m, if IsErrorMessage m then Some ErrorMessage else None),
                 ictx\<lparr>handlers := (handlers ictx)(tid op := None)\<rparr>,
                 op\<lparr>ch := Some (c\<lparr>queue := rest\<rparr>), status := FINAL, response := Some m\<rparr>)
           else ((None, Some BadStage),
                 ictx\<lparr>handlers := (handlers ictx)(tid op := None)\<rparr>,
                 op\<lparr>ch := Some (c\<lparr>queue := rest\<rparr>), status := FINAL\<rparr>))"
  using assms
  by (simp add: Invoke_GetResponse_def Let_def finalize_registered)

lemma Invoke_GetResponse_waits:
  fixes op :: InvokeOperationX
  assumes "status op = ACKNOWLEDGED" and "ch op = Some c" and "queue c = []"
    and "\<not> is_closed c"
  shows "Invoke_GetResponse (ictx, op) = None"
  using assms by (simp add: Invoke_GetResponse_def)

lemma Invoke_GetResponse_cached:
  fixes op :: InvokeOperationX
  assumes "status op = FINAL" and "response op = Some r"
  shows "Invoke_GetResponse (ictx, op) =
     Some ((Some r, if IsErrorMessage r then Some ErrorMessage else None), ictx, op)"
  using assms by (simp add: Invoke_GetResponse_def)

lemma Invoke_GetResponse_BadStatus:
  fixes op :: InvokeOperationX
  assumes "status op \<noteq> ACKNOWLEDGED" and "status op = FINAL \<longrightarrow> response op = None"
  shows "Invoke_GetResponse (ictx, op) = Some ((None, Some BadStatus), ictx, op)"
  using assms by (auto simp add: Invoke_GetResponse_def)

text \<open>
  C6. \<open>Invoke_GetResponse\<close> in \<open>ACKNOWLEDGED\<close> takes the next message \<open>m\<close> off the queue
  (and does not return while the queue is empty and open): if the stage of \<open>m\<close> is
  INVOKE_RESPONSE it returns \<open>m\<close>, with \<open>ErrorMessage\<close> exactly when \<open>m\<close> is an error
  message, caches \<open>m\<close> and ends in \<open>FINAL\<close>; for any other stage it returns \<open>BadStage\<close> and
  ends in \<open>FINAL\<close>. In \<open>FINAL\<close> with a cached response it returns that response and changes
  nothing. In every other status it returns \<open>BadStatus\<close> and changes nothing, the queue
  included.
\<close>

theorem Invoke_GetResponse_by_status:
  fixes op1 op2 op3 op4 :: InvokeOperationX
  shows
  "(status op1 = ACKNOWLEDGED \<longrightarrow> ch op1 = Some c1 \<longrightarrow> queue c1 = m # rest \<longrightarrow>
      Invoke_GetResponse (ictx, op1) =
        Some (if InteractionStage m = MAL_IP_STAGE_INVOKE_RESPONSE
              then ((Some m, if IsErrorMessage m then Some ErrorMessage else None),
                    ictx\<lparr>handlers := (handlers ictx)(tid op1 := None)\<rparr>,
                    op1\<lparr>ch := Some (c1\<lparr>queue := rest\<rparr>), status := FINAL,
                        response := Some m\<rparr>)
              else ((None, Some BadStage),
                    ictx\<lparr>handlers := (handlers ictx)(tid op1 := None)\<rparr>,
                    op1\<lparr>ch := Some (c1\<lparr>queue := rest\<rparr>), status := FINAL\<rparr>))) \<and>
   (status op2 = ACKNOWLEDGED \<longrightarrow> ch op2 = Some c2 \<longrightarrow> queue c2 = [] \<longrightarrow> \<not> is_closed c2 \<longrightarrow>
      Invoke_GetResponse (ictx, op2) = None) \<and>
   (status op3 = FINAL \<longrightarrow> response op3 = Some r \<longrightarrow>
      Invoke_GetResponse (ictx, op3) =
        Some ((Some r, if IsErrorMessage r then Some ErrorMessage else None), ictx, op3)) \<and>
   (status op4 \<noteq> ACKNOWLEDGED \<longrightarrow> (status op4 = FINAL \<longrightarrow> response op4 = None) \<longrightarrow>
      Invoke_GetResponse (ictx, op4) = Some ((None, Some BadStatus), ictx, op4))"
  using Invoke_GetResponse_reply [of op1 c1 m rest ictx]
    Invoke_GetResponse_waits [of op2 c2 ictx]
    Invoke_GetResponse_cached [of op3 r ictx]
    Invoke_GetResponse_BadStatus [of op4 ictx]
  by blast

theorem Invoke_GetResponse_by_status_witness:
  "Invoke_GetResponse (snd (register consumer 1 0), consumer_iop ACKNOWLEDGED
       (inbound [reply MAL_INTERACTIONTYPE_INVOKE MAL_IP_STAGE_INVOKE_RESPONSE True [238]] False)
       None) =
     Some ((Some (reply MAL_INTERACTIONTYPE_INVOKE MAL_IP_STAGE_INVOKE_RESPONSE True [238]),
            Some ErrorMessage),
           consumer,
           consumer_iop FINAL (inbound [] False)
             (Some (reply MAL_INTERACTIONTYPE_INVOKE MAL_IP_STAGE_INVOKE_RESPONSE True [238]))) \<and>
   Invoke_GetResponse (consumer, consumer_iop ACKNOWLEDGED (inbound [] False) None) = None \<and>
   Invoke_GetResponse (consumer, consumer_iop FINAL (inbound [] False)
       (Some (reply MAL_INTERACTIONTYPE_INVOKE MAL_IP_STAGE_INVOKE_RESPONSE True [238]))) =
     Some ((Some (reply MAL_INTERACTIONTYPE_INVOKE MAL_IP_STAGE_INVOKE_RESPONSE True [238]),
            Some ErrorMessage),
           consumer, consumer_iop FINAL (inbound [] False)
             (Some (reply MAL_INTERACTIONTYPE_INVOKE MAL_IP_STAGE_INVOKE_RESPONSE True [238]))) \<and>
   Invoke_GetResponse (consumer, consumer_iop CREATED
       (inbound [reply MAL_INTERACTIONTYPE_INVOKE MAL_IP_STAGE_INVOKE_RESPONSE True [238]] False)
       None) =
     Some ((None, Some BadStatus), consumer, consumer_iop CREATED
       (inbound [reply MAL_INTERACTIONTYPE_INVOKE MAL_IP_STAGE_INVOKE_RESPONSE True [238]] False)
       None)"
proof -
  let ?m = "reply MAL_INTERACTIONTYPE_INVOKE MAL_IP_STAGE_INVOKE_RESPONSE True [238]"
  let ?op1 = "consumer_iop ACKNOWLEDGED (inbound [?m] False) None"
  let ?op2 = "consumer_iop ACKNOWLEDGED (inbound [] False) None"
  let ?op3 = "consumer_iop FINAL (inbound [] False) (Some ?m)"
  let ?op4 = "consumer_iop CREATED (inbound [?m] False) None"
  note t = Invoke_GetResponse_by_status
    [of ?op1 "inbound [?m] False" ?m "[]" _ ?op2 "inbound [] False" ?op3 ?m ?op4]
  have a1: "status ?op1 = ACKNOWLEDGED" "ch ?op1 = Some (inbound [?m] False)"
    "queue (inbound [?m] False) = ?m # []"
    by (simp_all add: consumer_iop_def inbound_def)
  have a2: "status ?op2 = ACKNOWLEDGED" "ch ?op2 = Some (inbound [] False)"
    "queue (inbound [] False) = []" "\<not> is_closed (inbound [] False)"
    by (simp_all add: consumer_iop_def inbound_def)
  have a3: "status ?op3 = FINAL" "response ?op3 = Some ?m"
    by (simp_all add: consumer_iop_def)
  have a4: "status ?op4 \<noteq> ACKNOWLEDGED" "status ?op4 = FINAL \<longrightarrow> response ?op4 = None"
    by (simp_all add: consumer_iop_def)
  have c1: "Invoke_GetResponse (snd (register consumer 1 0), ?op1) =
     Some ((Some ?m, Some ErrorMessage), consumer, consumer_iop FINAL (inbound [] False) (Some ?m))"
    using t [of "snd (register consumer 1 0)", THEN conjunct1] a1
    by (simp add: reply_def consumer_iop_def inbound_def register_def consumer_def)
  have c2: "Invoke_GetResponse (consumer, ?op2) = None"
    using t [of consumer, THEN conjunct2, THEN conjunct1] a2 by simp
  have c3: "Invoke_GetResponse (consumer, ?op3) =
     Some ((Some ?m, Some ErrorMessage), consumer, ?op3)"
    using t [of consumer, THEN conjunct2, THEN conjunct2, THEN conjunct1] a3
    by (simp add: reply_def)
  have c4: "Invoke_GetResponse (consumer, ?op4) = Some ((None, Some BadStatus), consumer, ?op4)"
    using t [of consumer, THEN conjunct2, THEN conjunct2, THEN conjunct2] a4 by simp
  from c1 c2 c3 c4 show ?thesis by blast
qed

section \<open>Progress\<close>

lemma GetUpdate_reply:
  fixes op :: ProgressOperationX
  assumes "status op = ACKNOWLEDGED \<or> status op = PROGRESSING"
    and "ch op = Some c" and "queue c = m # rest"
  shows "GetUpdate (ictx, op) =
     Some (if InteractionStage m = MAL_IP_STAGE_PROGRESS_UPDATE
           then (if IsErrorMessage m
                 then ((Some m, Some ErrorMessage),
                       ictx\<lparr>handlers := (handlers ictx)(tid op := None)\<rparr>,
                       op\<lparr>ch := Some (c\<lparr>queue := rest\<rparr>), status := FINAL\<rparr>)
                 else ((Some m, None), ictx,
                       op\<lparr>ch := Some (c\<lparr>queue := rest\<rparr>), status := PROGRESSING\<rparr>))
           else if InteractionStage m = MAL_IP_STAGE_PROGRESS_RESPONSE
           then ((None, None),
                 ictx\<lparr>handlers := (handlers ictx)(tid op := None)\<rparr>,
                 op\<lparr>ch := Some (c\<lparr>queue := rest\<rparr>), status := FINAL, response := Some m\<rparr>)
           else ((None, Some BadStage),
                 ictx\<lparr>handlers := (handlers ictx)(tid op := None)\<rparr>,
                 op\<lparr>ch := Some (c\<lparr>queue := rest\<rparr>), status := FINAL\<rparr>))"
  using assms
  by (auto simp add: GetUpdate_def Let_def finalize_registered)

lemma Progress_GetResponse_cached:
  fixes op :: ProgressOperationX
  assumes "status op = FINAL" and "response op = Some r"
  shows "Progress_GetResponse (ictx, op) =
     Some ((Some r, if IsErrorMessage r then Some ErrorMessage else None), ictx, op)"
  using assms by (simp add: Progress_GetResponse_def)

lemma GetUpdates_updates:
  fixes op :: ProgressOperationX
  assumes "status op = ACKNOWLEDGED \<or> status op = PROGRESSING"
    and "ch op = Some c" and "queue c = us @ rest"
    and "\<forall>u \<in> set us. InteractionStage u = MAL_IP_STAGE_PROGRESS_UPDATE \<and> \<not> IsErrorMessage u"
  shows "GetUpdates (length us) (ictx, op) =
     Some (map (\<lambda>u. (Some u, None)) us, ictx,
           op\<lparr>ch := Some (c\<lparr>queue := rest\<rparr>),
              status := (if us = [] then status op else PROGRESSING)\<rparr>)"
  using assms
proof (induction us arbitrary: op c)
  case Nil
  then show ?case by simp
next
  case (Cons u us)
  let ?op = "op\<lparr>ch := Some (c\<lparr>queue := us @ rest\<rparr>), status := PROGRESSING\<rparr>"
  from Cons.prems have g: "GetUpdate (ictx, op) = Some ((Some u, None), ictx, ?op)"
    by (simp add: GetUpdate_reply [of op c u "us @ rest"])
  have "GetUpdates (length us) (ictx, ?op) =
     Some (map (\<lambda>u. (Some u, None)) us, ictx,
           ?op\<lparr>ch := Some ((c\<lparr>queue := us @ rest\<rparr>)\<lparr>queue := rest\<rparr>),
              status := (if us = [] then status ?op else PROGRESSING)\<rparr>)"
    by (rule Cons.IH) (use Cons.prems in simp_all)
  with g show ?case by simp
qed

text \<open>
  C5, as the code has it. \<open>GetUpdate\<close> in \<open>ACKNOWLEDGED\<close> or \<open>PROGRESSING\<close> takes the
  next message \<open>m\<close> off the queue. For a PROGRESS_UPDATE that is not an error message it
  returns \<open>m\<close> and the status is \<open>PROGRESSING\<close>; for a PROGRESS_UPDATE that is an error
  message it returns \<open>m\<close> together with \<open>ErrorMessage\<close> and the operation is \<open>FINAL\<close>. For a
  PROGRESS_RESPONSE it returns neither message nor error, caches \<open>m\<close> and ends in
  \<open>FINAL\<close>, and \<open>Progress_GetResponse\<close> afterwards returns the cached \<open>m\<close>. Any other stage
  gives \<open>BadStage\<close> and \<open>FINAL\<close>. Called once for each of a run \<open>us\<close> of updates that are
  not error messages, it returns them one by one in order and leaves the rest of the queue.
\<close>

theorem GetUpdate_lazy_sequence:
  fixes op :: ProgressOperationX
  assumes "status op = ACKNOWLEDGED \<or> status op = PROGRESSING"
    and "ch op = Some c"
  shows
  "(queue c = m # rest \<longrightarrow>
      GetUpdate (ictx, op) =
        Some (if InteractionStage m = MAL_IP_STAGE_PROGRESS_UPDATE
              then (if IsErrorMessage m
                    then ((Some m, Some ErrorMessage),
                          ictx\<lparr>handlers := (handlers ictx)(tid op := None)\<rparr>,
                          op\<lparr>ch := Some (c\<lparr>queue := rest\<rparr>), status := FINAL\<rparr>)
                    else ((Some m, None), ictx,
                          op\<lparr>ch := Some (c\<lparr>queue := rest\<rparr>), status := PROGRESSING\<rparr>))
              else if InteractionStage m = MAL_IP_STAGE_PROGRESS_RESPONSE
              then ((None, None),
                    ictx\<lparr>handlers := (handlers ictx)(tid op := None)\<rparr>,
                    op\<lparr>ch := Some (c\<lparr>queue := rest\<rparr>), status := FINAL,
                       response := Some m\<rparr>)
              else ((None, Some BadStage),
                    ictx\<lparr>handlers := (handlers ictx)(tid op := None)\<rparr>,
                    op\<lparr>ch := Some (c\<lparr>queue := rest\<rparr>), status := FINAL\<rparr>))) \<and>
   (queue c = m # rest \<longrightarrow> InteractionStage m = MAL_IP_STAGE_PROGRESS_RESPONSE \<longrightarrow>
      Progress_GetResponse (snd (the (GetUpdate (ictx, op)))) =
        Some ((Some m, if IsErrorMessage m then Some ErrorMessage else None),
              snd (the (GetUpdate (ictx, op))))) \<and>
   (queue c = us @ rest' \<longrightarrow>
    (\<forall>u \<in> set us. InteractionStage u = MAL_IP_STAGE_PROGRESS_UPDATE \<and> \<not> IsErrorMessage u) \<longrightarrow>
      GetUpdates (length us) (ictx, op) =
        Some (map (\<lambda>u. (Some u, None)) us, ictx,
              op\<lparr>ch := Some (c\<lparr>queue := rest'\<rparr>),
                 status := (if us = [] then status op else PROGRESSING)\<rparr>))"
proof (intro conjI impI)
  assume q: "queue c = m # rest"
  show "GetUpdate (ictx, op) =
        Some (if InteractionStage m = MAL_IP_STAGE_PROGRESS_UPDATE
              then (if IsErrorMessage m
                    then ((Some m, Some ErrorMessage),
                          ictx\<lparr>handlers := (handlers ictx)(tid op := None)\<rparr>,
                          op\<lparr>ch := Some (c\<lparr>queue := rest\<rparr>), status := FINAL\<rparr>)
                    else ((Some m, None), ictx,
                          op\<lparr>ch := Some (c\<lparr>queue := rest\<rparr>), status := PROGRESSING\<rparr>))
              else if InteractionStage m = MAL_IP_STAGE_PROGRESS_RESPONSE
              then ((None, None),
                    ictx\<lparr>handlers := (handlers ictx)(tid op := None)\<rparr>,
                    op\<lparr>ch := Some (c\<lparr>queue := rest\<rparr>), status := FINAL,
                       response := Some m\<rparr>)
              else ((None, Some BadStage),
                    ictx\<lparr>handlers := (handlers ictx)(tid op := None)\<rparr>,
                    op\<lparr>ch := Some (c\<lparr>queue := rest\<rparr>), status := FINAL\<rparr>))"
    using assms q by (rule GetUpdate_reply)
next
  assume q: "queue c = m # rest"
    and r: "InteractionStage m = MAL_IP_STAGE_PROGRESS_RESPONSE"
  have "GetUpdate (ictx, op) =
      Some ((None, None), ictx\<lparr>handlers := (handlers ictx)(tid op := None)\<rparr>,
            op\<lparr>ch := Some (c\<lparr>queue := rest\<rparr>), status := FINAL, response := Some m\<rparr>)"
    using GetUpdate_reply [OF assms q] r by simp
  then show "Progress_GetResponse (snd (the (GetUpdate (ictx, op)))) =
        Some ((Some m, if IsErrorMessage m then Some ErrorMessage else None),
              snd (the (GetUpdate (ictx, op))))"
    by (simp add: Progress_GetResponse_cached)
next
  assume "queue c = us @ rest'"
    and "\<forall>u \<in> set us. InteractionStage u = MAL_IP_STAGE_PROGRESS_UPDATE \<and> \<not> IsErrorMessage u"
  with assms show "GetUpdates (length us) (ictx, op) =
        Some (map (\<lambda>u. (Some u, None)) us, ictx,
              op\<lparr>ch := Some (c\<lparr>queue := rest'\<rparr>),
                 status := (if us = [] then status op else PROGRESSING)\<rparr>)"
    by (rule GetUpdates_updates)
qed

theorem GetUpdate_lazy_sequence_witness:
  "GetUpdates 3 (snd (register consumer 1 0), consumer_iop ACKNOWLEDGED
       (inbound [reply MAL_INTERACTIONTYPE_PROGRESS MAL_IP_STAGE_PROGRESS_UPDATE False [16],
                 reply MAL_INTERACTIONTYPE_PROGRESS MAL_IP_STAGE_PROGRESS_UPDATE False [17],
                 reply MAL_INTERACTIONTYPE_PROGRESS MAL_IP_STAGE_PROGRESS_UPDATE False [18],
                 reply MAL_INTERACTIONTYPE_PROGRESS MAL_IP_STAGE_PROGRESS_RESPONSE False [255]]
          False) None) =
     Some ([(Some (reply MAL_INTERACTIONTYPE_PROGRESS MAL_IP_STAGE_PROGRESS_UPDATE False [16]), None),
            (Some (reply MAL_INTERACTIONTYPE_PROGRESS MAL_IP_STAGE_PROGRESS_UPDATE False [17]), None),
            (Some (reply MAL_INTERACTIONTYPE_PROGRESS MAL_IP_STAGE_PROGRESS_UPDATE False [18]), None)],
           snd (register consumer 1 0),
           consumer_iop PROGRESSING
             (inbound [reply MAL_INTERACTIONTYPE_PROGRESS MAL_IP_STAGE_PROGRESS_RESPONSE False [255]]
                False) None) \<and>
   GetUpdate (snd (register consumer 1 0), consumer_iop PROGRESSING
       (inbound [reply MAL_INTERACTIONTYPE_PROGRESS MAL_IP_STAGE_PROGRESS_RESPONSE False [255]]
          False) None) =
     Some ((None, None), consumer,
           consumer_iop FINAL (inbound [] False)
             (Some (reply MAL_INTERACTIONTYPE_PROGRESS MAL_IP_STAGE_PROGRESS_RESPONSE False [255]))) \<and>
   Progress_GetResponse (consumer, consumer_iop FINAL (inbound [] False)
       (Some (reply MAL_INTERACTIONTYPE_PROGRESS MAL_IP_STAGE_PROGRESS_RESPONSE False [255]))) =
     Some ((Some (reply MAL_INTERACTIONTYPE_PROGRESS MAL_IP_STAGE_PROGRESS_RESPONSE False [255]),
            None),
           consumer, consumer_iop FINAL (inbound [] False)
             (Some (reply MAL_INTERACTIONTYPE_PROGRESS MAL_IP_STAGE_PROGRESS_RESPONSE False [255])))"
proof -
  let ?u1 = "reply MAL_INTERACTIONTYPE_PROGRESS MAL_IP_STAGE_PROGRESS_UPDATE False [16]"
  let ?u2 = "reply MAL_INTERACTIONTYPE_PROGRESS MAL_IP_STAGE_PROGRESS_UPDATE False [17]"
  let ?u3 = "reply MAL_INTERACTIONTYPE_PROGRESS MAL_IP_STAGE_PROGRESS_UPDATE False [18]"
  let ?r = "reply MAL_INTERACTIONTYPE_PROGRESS MAL_IP_STAGE_PROGRESS_RESPONSE False [255]"
  let ?ictx = "snd (register consumer 1 0)"
  let ?op0 = "consumer_iop ACKNOWLEDGED (inbound [?u1, ?u2, ?u3, ?r] False) None"
  let ?op3 = "consumer_iop PROGRESSING (inbound [?r] False) None"
  let ?op4 = "consumer_iop FINAL (inbound [] False) (Some ?r)"
  have a0: "status ?op0 = ACKNOWLEDGED \<or> status ?op0 = PROGRESSING"
    "ch ?op0 = Some (inbound [?u1, ?u2, ?u3, ?r] False)"
    by (simp_all add: consumer_iop_def)
  have q0: "queue (inbound [?u1, ?u2, ?u3, ?r] False) = [?u1, ?u2, ?u3] @ [?r]"
    by (simp add: inbound_def)
  have u0: "\<forall>u \<in> set [?u1, ?u2, ?u3].
      InteractionStage u = MAL_IP_STAGE_PROGRESS_UPDATE \<and> \<not> IsErrorMessage u"
    by (simp add: reply_def)
  have a3: "status ?op3 = ACKNOWLEDGED \<or> status ?op3 = PROGRESSING"
    "ch ?op3 = Some (inbound [?r] False)"
    by (simp_all add: consumer_iop_def)
  have q3: "queue (inbound [?r] False) = ?r # []"
    by (simp add: inbound_def)
  have r3: "InteractionStage ?r = MAL_IP_STAGE_PROGRESS_RESPONSE"
    by (simp add: reply_def)
  note t0 = GetUpdate_lazy_sequence
    [where us = "[?u1, ?u2, ?u3]" and rest' = "[?r]" and ictx = ?ictx, OF a0]
  note t3 = GetUpdate_lazy_sequence [where m = ?r and rest = "[]" and ictx = ?ictx, OF a3]
  have l: "length [?u1, ?u2, ?u3] = 3" by simp
  have f: "GetUpdates (length [?u1, ?u2, ?u3]) (?ictx, ?op0) =
      Some (map (\<lambda>u. (Some u, None)) [?u1, ?u2, ?u3], ?ictx,
            ?op0\<lparr>ch := Some ((inbound [?u1, ?u2, ?u3, ?r] False)\<lparr>queue := [?r]\<rparr>),
                 status := (if [?u1, ?u2, ?u3] = [] then status ?op0 else PROGRESSING)\<rparr>)"
    using t0 [THEN conjunct2, THEN conjunct2] q0 u0 by blast
  have c1: "GetUpdates 3 (?ictx, ?op0) =
      Some ([(Some ?u1, None), (Some ?u2, None), (Some ?u3, None)], ?ictx, ?op3)"
    using f unfolding l
    by (simp add: consumer_iop_def inbound_def)
  have c2: "GetUpdate (?ictx, ?op3) = Some ((None, None), consumer, ?op4)"
    using t3 [THEN conjunct1] q3 r3
    by (simp add: consumer_iop_def inbound_def register_def consumer_def)
  have c3: "Progress_GetResponse (consumer, ?op4) = Some ((Some ?r, None), consumer, ?op4)"
    using t3 [THEN conjunct2, THEN conjunct1] q3 r3 c2
    by (simp add: reply_def)
  from c1 c2 c3 show ?thesis by blast
qed

text \<open>
  The claim C5 as stated fails for an update that is an error message: the call returns
  the message, but with \<open>ErrorMessage\<close>, and the operation is \<open>FINAL\<close>, not \<open>PROGRESSING\<close>.
\<close>

theorem GetUpdate_error_update_counterexample:
  "InteractionStage (reply MAL_INTERACTIONTYPE_PROGRESS MAL_IP_STAGE_PROGRESS_UPDATE True [16])
     = MAL_IP_STAGE_PROGRESS_UPDATE \<and>
   GetUpdate (snd (register consumer 1 0), consumer_iop ACKNOWLEDGED
       (inbound [reply MAL_INTERACTIONTYPE_PROGRESS MAL_IP_STAGE_PROGRESS_UPDATE True [16]] False)
       None) =
     Some ((Some (reply MAL_INTERACTIONTYPE_PROGRESS MAL_IP_STAGE_PROGRESS_UPDATE True [16]),
            Some ErrorMessage),
           consumer, consumer_iop FINAL (inbound [] False) None) \<and>
   status (consumer_iop FINAL (inbound [] False) None) \<noteq> PROGRESSING"
  by (simp add: GetUpdate_def Let_def finalize_def deregister_def register_def
      reply_def consumer_iop_def inbound_def consumer_def)

section \<open>Subscriber\<close>

declare Deregister_wait.simps [simp del]

lemma Deregister_wait_notifies:
  assumes "ch op = Some c" and "queue c = ns @ rest"
    and "\<forall>n \<in> set ns. InteractionStage n = MAL_IP_STAGE_PUBSUB_NOTIFY"
  shows "Deregister_wait (ictx, op) = Deregister_wait (ictx, op\<lparr>ch := Some (c\<lparr>queue := rest\<rparr>)\<rparr>)"
  using assms
proof (induction ns arbitrary: op c)
  case Nil
  then have "op\<lparr>ch := Some (c\<lparr>queue := rest\<rparr>)\<rparr> = op" by simp
  then show ?case by simp
next
  case (Cons n ns)
  let ?op = "op\<lparr>ch := Some (c\<lparr>queue := ns @ rest\<rparr>)\<rparr>"
  from Cons.prems have "Deregister_wait (ictx, op) = Deregister_wait (ictx, ?op)"
    by (subst Deregister_wait.simps) simp
  also have "\<dots> = Deregister_wait (ictx, ?op\<lparr>ch := Some ((c\<lparr>queue := ns @ rest\<rparr>)\<lparr>queue := rest\<rparr>)\<rparr>)"
    by (rule Cons.IH) (use Cons.prems in simp_all)
  finally show ?case by simp
qed


lemma Deregister_wait_closed:
  assumes "ch op = Some c" and "queue c = []" and "is_closed c"
  shows "Deregister_wait (ictx, op) =
     Some ((None, Some OperationEnded),
           ictx\<lparr>handlers := (handlers ictx)(tid op := None)\<rparr>, op\<lparr>status := FINAL\<rparr>)"
proof -
  from assms(1) have "op\<lparr>ch := Some c\<rparr> = op" by simp
  with assms show ?thesis
    by (subst Deregister_wait.simps) (simp add: finalize_registered)
qed




section \<open>A queue that is closed while a call waits\<close>

lemma ch_same [simp]: "ch op = Some c \<Longrightarrow> op\<lparr>ch := Some c\<rparr> = op"
  by simp

lemma Submit_closed:
  assumes "status op = CREATED" and "handlers ictx (tid op) = None"
    and "transport (Ctx ictx)
           (outMessage ictx op MAL_INTERACTIONTYPE_SUBMIT MAL_IP_STAGE_SUBMIT body) = None"
    and "ch op = Some c" and "queue c = []" and "is_closed c"
  shows "Submit body (ictx, op) =
     Some ((None, Some OperationEnded),
           ictx\<lparr>Ctx := (Ctx ictx)\<lparr>outbound := outbound (Ctx ictx) @
               [outMessage ictx op MAL_INTERACTIONTYPE_SUBMIT MAL_IP_STAGE_SUBMIT body]\<rparr>\<rparr>,
           op\<lparr>status := FINAL\<rparr>)"
  using assms
  by (simp add: Submit_def Let_def register_def Send_def finalize_registered fun_upd_idem)

lemma Request_closed:
  assumes "status op = CREATED" and "handlers ictx (tid op) = None"
    and "transport (Ctx ictx)
           (outMessage ictx op MAL_INTERACTIONTYPE_REQUEST MAL_IP_STAGE_REQUEST body) = None"
    and "ch op = Some c" and "queue c = []" and "is_closed c"
  shows "Request body (ictx, op) =
     Some ((None, Some OperationEnded),
           ictx\<lparr>Ctx := (Ctx ictx)\<lparr>outbound := outbound (Ctx ictx) @
               [outMessage ictx op MAL_INTERACTIONTYPE_REQUEST MAL_IP_STAGE_REQUEST body]\<rparr>\<rparr>,
           op\<lparr>status := FINAL\<rparr>)"
  using assms
  by (simp add: Request_def Let_def register_def Send_def finalize_registered fun_upd_idem)

lemma Invoke_closed:
  fixes op :: InvokeOperationX
  assumes "status op = CREATED" and "handlers ictx (tid op) = None"
    and "transport (Ctx ictx)
           (outMessage ictx op MAL_INTERACTIONTYPE_INVOKE MAL_IP_STAGE_INVOKE body) = None"
    and "ch op = Some c" and "queue c = []" and "is_closed c"
  shows "Invoke body (ictx, op) =
     Some ((None, Some OperationEnded),
           ictx\<lparr>Ctx := (Ctx ictx)\<lparr>outbound := outbound (Ctx ictx) @
               [outMessage ictx op MAL_INTERACTIONTYPE_INVOKE MAL_IP_STAGE_INVOKE body]\<rparr>\<rparr>,
           op\<lparr>status := FINAL\<rparr>)"
  using assms
  by (simp add: Invoke_def Let_def register_def Send_def finalize_registered fun_upd_idem)

lemma Progress_closed:
  fixes op :: ProgressOperationX
  assumes "status op = CREATED" and "handlers ictx (tid op) = None"
    and "transport (Ctx ictx)
           (outMessage ictx op MAL_INTERACTIONTYPE_PROGRESS MAL_IP_STAGE_PROGRESS body) = None"
    and "ch op = Some c" and "queue c = []" and "is_closed c"
  shows "Progress body (ictx, op) =
     Some ((None, Some OperationEnded),
           ictx\<lparr>Ctx := (Ctx ictx)\<lparr>outbound := outbound (Ctx ictx) @
               [outMessage ictx op MAL_INTERACTIONTYPE_PROGRESS MAL_IP_STAGE_PROGRESS body]\<rparr>\<rparr>,
           op\<lparr>status := FINAL\<rparr>)"
  using assms
  by (simp add: Progress_def Let_def register_def Send_def finalize_registered fun_upd_idem)

lemma Subscriber_Register_closed:
  assumes "status op = CREATED" and "handlers ictx (tid op) = None"
    and "transport (Ctx ictx)
           (outMessage ictx op MAL_INTERACTIONTYPE_PUBSUB MAL_IP_STAGE_PUBSUB_REGISTER body)
           = None"
    and "ch op = Some c" and "queue c = []" and "is_closed c"
  shows "Subscriber_Register body (ictx, op) =
     Some ((None, Some OperationEnded),
           ictx\<lparr>Ctx := (Ctx ictx)\<lparr>outbound := outbound (Ctx ictx) @
               [outMessage ictx op MAL_INTERACTIONTYPE_PUBSUB MAL_IP_STAGE_PUBSUB_REGISTER
                  body]\<rparr>\<rparr>,
           op\<lparr>status := FINAL\<rparr>)"
  using assms
  by (simp add: Subscriber_Register_def Let_def register_def Send_def finalize_registered
      fun_upd_idem)

lemma Publisher_Register_closed:
  assumes "status op = CREATED" and "handlers ictx (tid op) = None"
    and "transport (Ctx ictx)
           (outMessage ictx op MAL_INTERACTIONTYPE_PUBSUB
              MAL_IP_STAGE_PUBSUB_PUBLISH_REGISTER body) = None"
    and "ch op = Some c" and "queue c = []" and "is_closed c"
  shows "Publisher_Register body (ictx, op) =
     Some ((None, Some OperationEnded),
           ictx\<lparr>Ctx := (Ctx ictx)\<lparr>outbound := outbound (Ctx ictx) @
               [outMessage ictx op MAL_INTERACTIONTYPE_PUBSUB
                  MAL_IP_STAGE_PUBSUB_PUBLISH_REGISTER body]\<rparr>\<rparr>,
           op\<lparr>status := FINAL\<rparr>)"
  using assms
  by (simp add: Publisher_Register_def Let_def register_def Send_def finalize_registered
      fun_upd_idem)

lemma Invoke_GetResponse_closed:
  fixes op :: InvokeOperationX
  assumes "status op = ACKNOWLEDGED"
    and "ch op = Some c" and "queue c = []" and "is_closed c"
  shows "Invoke_GetResponse (ictx, op) =
     Some ((None, Some OperationEnded),
           ictx\<lparr>handlers := (handlers ictx)(tid op := None)\<rparr>, op\<lparr>status := FINAL\<rparr>)"
  using assms by (simp add: Invoke_GetResponse_def finalize_registered)

lemma GetUpdate_closed:
  fixes op :: ProgressOperationX
  assumes "status op = ACKNOWLEDGED \<or> status op = PROGRESSING"
    and "ch op = Some c" and "queue c = []" and "is_closed c"
  shows "GetUpdate (ictx, op) =
     Some ((None, Some OperationEnded),
           ictx\<lparr>handlers := (handlers ictx)(tid op := None)\<rparr>, op\<lparr>status := FINAL\<rparr>)"
  using assms by (auto simp add: GetUpdate_def finalize_registered)

lemma Progress_GetResponse_closed:
  fixes op :: ProgressOperationX
  assumes "status op = ACKNOWLEDGED \<or> status op = PROGRESSING"
    and "ch op = Some c" and "queue c = []" and "is_closed c"
  shows "Progress_GetResponse (ictx, op) =
     Some ((None, Some OperationEnded),
           ictx\<lparr>handlers := (handlers ictx)(tid op := None)\<rparr>, op\<lparr>status := FINAL\<rparr>)"
  using assms by (auto simp add: Progress_GetResponse_def finalize_registered)

lemma GetNotify_closed:
  assumes "status op = REGISTERED \<or> status op = REREGISTER_INITIATED \<or>
           status op = DEREGISTER_INITIATED"
    and "ch op = Some c" and "queue c = []" and "is_closed c"
  shows "GetNotify (ictx, op) =
     Some ((None, Some OperationEnded),
           ictx\<lparr>handlers := (handlers ictx)(tid op := None)\<rparr>, op\<lparr>status := FINAL\<rparr>)"
  using assms by (auto simp add: GetNotify_def finalize_registered)

lemma Subscriber_Deregister_closed:
  assumes "status op = REGISTERED"
    and "transport (Ctx ictx)
           (outMessage ictx op MAL_INTERACTIONTYPE_PUBSUB MAL_IP_STAGE_PUBSUB_DEREGISTER body)
           = None"
    and "ch op = Some c" and "is_closed c"
    and "\<forall>n \<in> set (queue c). InteractionStage n = MAL_IP_STAGE_PUBSUB_NOTIFY"
  shows "Subscriber_Deregister body (ictx, op) =
     Some ((None, Some OperationEnded),
           ictx\<lparr>Ctx := (Ctx ictx)\<lparr>outbound := outbound (Ctx ictx) @
                   [outMessage ictx op MAL_INTERACTIONTYPE_PUBSUB
                      MAL_IP_STAGE_PUBSUB_DEREGISTER body]\<rparr>,
                handlers := (handlers ictx)(tid op := None)\<rparr>,
           op\<lparr>ch := Some (c\<lparr>queue := []\<rparr>), status := FINAL\<rparr>)"
proof -
  let ?ictx = "ictx\<lparr>Ctx := (Ctx ictx)\<lparr>outbound := outbound (Ctx ictx) @
                   [outMessage ictx op MAL_INTERACTIONTYPE_PUBSUB
                      MAL_IP_STAGE_PUBSUB_DEREGISTER body]\<rparr>\<rparr>"
  let ?op1 = "op\<lparr>status := DEREGISTER_INITIATED\<rparr>"
  let ?op2 = "?op1\<lparr>ch := Some (c\<lparr>queue := []\<rparr>)\<rparr>"
  have "Subscriber_Deregister body (ictx, op) = Deregister_wait (?ictx, ?op1)"
    using assms(1,2) by (simp add: Subscriber_Deregister_def Let_def Send_def)
  also have "\<dots> = Deregister_wait (?ictx, ?op2)"
    by (rule Deregister_wait_notifies [where ns = "queue c"]) (use assms in simp_all)
  also have "\<dots> =
     Some ((None, Some OperationEnded),
           ?ictx\<lparr>handlers := (handlers ?ictx)(tid ?op2 := None)\<rparr>, ?op2\<lparr>status := FINAL\<rparr>)"
    by (rule Deregister_wait_closed [where c = "c\<lparr>queue := []\<rparr>"]) (use assms in simp_all)
  finally show ?thesis by simp
qed

lemma Publisher_Deregister_closed:
  assumes "status op = REGISTERED"
    and "transport (Ctx ictx)
           (outMessage ictx op MAL_INTERACTIONTYPE_PUBSUB
              MAL_IP_STAGE_PUBSUB_PUBLISH_DEREGISTER body) = None"
    and "ch op = Some c" and "queue c = []" and "is_closed c"
  shows "Publisher_Deregister body (ictx, op) =
     Some ((None, Some OperationEnded),
           ictx\<lparr>Ctx := (Ctx ictx)\<lparr>outbound := outbound (Ctx ictx) @
                   [outMessage ictx op MAL_INTERACTIONTYPE_PUBSUB
                      MAL_IP_STAGE_PUBSUB_PUBLISH_DEREGISTER body]\<rparr>,
                handlers := (handlers ictx)(tid op := None)\<rparr>,
           op\<lparr>status := FINAL\<rparr>)"
  using assms
  by (simp add: Publisher_Deregister_def Let_def Send_def finalize_registered)

text \<open>
  C9. When the queue is closed and empty at the moment a call waits on it, the call returns
  with no message and the error \<open>OperationEnded\<close>, and the operation is finalized. This
  holds for every method that waits: \<open>Submit\<close>, \<open>Request\<close>, \<open>Invoke\<close>, \<open>Progress\<close> and the two
  \<open>Register\<close> (called in \<open>CREATED\<close>, with registration and send succeeding), the two
  \<open>GetResponse\<close> and \<open>GetUpdate\<close> (called in \<open>ACKNOWLEDGED\<close> or, for a progress
  operation, \<open>PROGRESSING\<close>), \<open>GetNotify\<close> and the two \<open>Deregister\<close> (called in
  \<open>REGISTERED\<close>, the send succeeding); \<open>Subscriber_Deregister\<close> first drops the notifies that
  are still queued in front of the close. The last part is the state in which such a call
  leaves the operation when it is \<open>Close\<close>, called from another goroutine, that closes the
  queue: \<open>Close\<close> has set the status to \<open>CLOSED\<close> and dropped the channel, and the
  \<open>finalize\<close> of the woken call sets the status to \<open>FINAL\<close>.
\<close>

theorem closed_queue_ends_call:
  fixes op rop dop :: OperationX and iop aop pop :: InvokeOperationX
    and wop :: "'a OperationX_scheme"
  assumes "queue c = []" and "is_closed c"
  shows
  "(status op = CREATED \<and> ch op = Some c \<and> handlers ictx (tid op) = None \<longrightarrow>
      (transport (Ctx ictx)
         (outMessage ictx op MAL_INTERACTIONTYPE_SUBMIT MAL_IP_STAGE_SUBMIT body) = None \<longrightarrow>
       ends_finalized (Submit body (ictx, op))) \<and>
      (transport (Ctx ictx)
         (outMessage ictx op MAL_INTERACTIONTYPE_REQUEST MAL_IP_STAGE_REQUEST body) = None \<longrightarrow>
       ends_finalized (Request body (ictx, op))) \<and>
      (transport (Ctx ictx)
         (outMessage ictx op MAL_INTERACTIONTYPE_PUBSUB MAL_IP_STAGE_PUBSUB_REGISTER body)
         = None \<longrightarrow>
       ends_finalized (Subscriber_Register body (ictx, op))) \<and>
      (transport (Ctx ictx)
         (outMessage ictx op MAL_INTERACTIONTYPE_PUBSUB MAL_IP_STAGE_PUBSUB_PUBLISH_REGISTER
            body) = None \<longrightarrow>
       ends_finalized (Publisher_Register body (ictx, op)))) \<and>
   (status iop = CREATED \<and> ch iop = Some c \<and> handlers ictx (tid iop) = None \<longrightarrow>
      (transport (Ctx ictx)
         (outMessage ictx iop MAL_INTERACTIONTYPE_INVOKE MAL_IP_STAGE_INVOKE body) = None \<longrightarrow>
       ends_finalized (Invoke body (ictx, iop))) \<and>
      (transport (Ctx ictx)
         (outMessage ictx iop MAL_INTERACTIONTYPE_PROGRESS MAL_IP_STAGE_PROGRESS body) = None \<longrightarrow>
       ends_finalized (Progress body (ictx, iop)))) \<and>
   (status aop = ACKNOWLEDGED \<and> ch aop = Some c \<longrightarrow>
      ends_finalized (Invoke_GetResponse (rctx, aop)) \<and>
      ends_finalized (GetUpdate (rctx, aop)) \<and>
      ends_finalized (Progress_GetResponse (rctx, aop))) \<and>
   (status pop = PROGRESSING \<and> ch pop = Some c \<longrightarrow>
      ends_finalized (GetUpdate (rctx, pop)) \<and>
      ends_finalized (Progress_GetResponse (rctx, pop))) \<and>
   (status rop = REGISTERED \<and> ch rop = Some c \<longrightarrow>
      ends_finalized (GetNotify (rctx, rop)) \<and>
      (transport (Ctx rctx)
         (outMessage rctx rop MAL_INTERACTIONTYPE_PUBSUB MAL_IP_STAGE_PUBSUB_DEREGISTER body)
         = None \<longrightarrow>
       ends_finalized (Subscriber_Deregister body (rctx, rop))) \<and>
      (transport (Ctx rctx)
         (outMessage rctx rop MAL_INTERACTIONTYPE_PUBSUB
            MAL_IP_STAGE_PUBSUB_PUBLISH_DEREGISTER body) = None \<longrightarrow>
       ends_finalized (Publisher_Deregister body (rctx, rop)))) \<and>
   (status dop = REGISTERED \<and> ch dop = Some c' \<and> is_closed c' \<and>
    (\<forall>n \<in> set (queue c'). InteractionStage n = MAL_IP_STAGE_PUBSUB_NOTIFY) \<and>
    transport (Ctx rctx)
      (outMessage rctx dop MAL_INTERACTIONTYPE_PUBSUB MAL_IP_STAGE_PUBSUB_DEREGISTER body)
      = None \<longrightarrow>
      ends_finalized (Subscriber_Deregister body (rctx, dop))) \<and>
   (status wop \<noteq> CLOSED \<and> ch wop = Some c'' \<longrightarrow>
      finalize (snd (Close (rctx, wop))) =
        (rctx\<lparr>handlers := (handlers rctx)(tid wop := None)\<rparr>,
         wop\<lparr>status := FINAL, ch := None\<rparr>))"
proof -
  have created:
    "ends_finalized (Submit body (ictx, op))"
    if "status op = CREATED" "ch op = Some c" "handlers ictx (tid op) = None"
      "transport (Ctx ictx)
         (outMessage ictx op MAL_INTERACTIONTYPE_SUBMIT MAL_IP_STAGE_SUBMIT body) = None"
    using Submit_closed [OF that(1,3,4,2) assms] that(3)
    by (simp add: ends_finalized_def)
  have request:
    "ends_finalized (Request body (ictx, op))"
    if "status op = CREATED" "ch op = Some c" "handlers ictx (tid op) = None"
      "transport (Ctx ictx)
         (outMessage ictx op MAL_INTERACTIONTYPE_REQUEST MAL_IP_STAGE_REQUEST body) = None"
    using Request_closed [OF that(1,3,4,2) assms] that(3)
    by (simp add: ends_finalized_def)
  have sreg:
    "ends_finalized (Subscriber_Register body (ictx, op))"
    if "status op = CREATED" "ch op = Some c" "handlers ictx (tid op) = None"
      "transport (Ctx ictx)
         (outMessage ictx op MAL_INTERACTIONTYPE_PUBSUB MAL_IP_STAGE_PUBSUB_REGISTER body)
         = None"
    using Subscriber_Register_closed [OF that(1,3,4,2) assms] that(3)
    by (simp add: ends_finalized_def)
  have preg:
    "ends_finalized (Publisher_Register body (ictx, op))"
    if "status op = CREATED" "ch op = Some c" "handlers ictx (tid op) = None"
      "transport (Ctx ictx)
         (outMessage ictx op MAL_INTERACTIONTYPE_PUBSUB MAL_IP_STAGE_PUBSUB_PUBLISH_REGISTER
            body) = None"
    using Publisher_Register_closed [OF that(1,3,4,2) assms] that(3)
    by (simp add: ends_finalized_def)
  have invoke:
    "ends_finalized (Invoke body (ictx, iop))"
    if "status iop = CREATED" "ch iop = Some c" "handlers ictx (tid iop) = None"
      "transport (Ctx ictx)
         (outMessage ictx iop MAL_INTERACTIONTYPE_INVOKE MAL_IP_STAGE_INVOKE body) = None"
    using Invoke_closed [OF that(1,3,4,2) assms] that(3)
    by (simp add: ends_finalized_def)
  have progress:
    "ends_finalized (Progress body (ictx, iop))"
    if "status iop = CREATED" "ch iop = Some c" "handlers ictx (tid iop) = None"
      "transport (Ctx ictx)
         (outMessage ictx iop MAL_INTERACTIONTYPE_PROGRESS MAL_IP_STAGE_PROGRESS body) = None"
    using Progress_closed [OF that(1,3,4,2) assms] that(3)
    by (simp add: ends_finalized_def)
  have ack1: "ends_finalized (Invoke_GetResponse (rctx, aop))"
    if "status aop = ACKNOWLEDGED" "ch aop = Some c"
    using that assms by (simp add: ends_finalized_def Invoke_GetResponse_closed)
  have ack2: "ends_finalized (GetUpdate (rctx, aop))"
    if "status aop = ACKNOWLEDGED" "ch aop = Some c"
    using that assms by (simp add: ends_finalized_def GetUpdate_closed)
  have ack3: "ends_finalized (Progress_GetResponse (rctx, aop))"
    if "status aop = ACKNOWLEDGED" "ch aop = Some c"
    using that assms by (simp add: ends_finalized_def Progress_GetResponse_closed)
  have prog1: "ends_finalized (GetUpdate (rctx, pop))"
    if "status pop = PROGRESSING" "ch pop = Some c"
    using that assms by (simp add: ends_finalized_def GetUpdate_closed)
  have prog2: "ends_finalized (Progress_GetResponse (rctx, pop))"
    if "status pop = PROGRESSING" "ch pop = Some c"
    using that assms by (simp add: ends_finalized_def Progress_GetResponse_closed)
  have notify:
    "ends_finalized (GetNotify (rctx, rop))"
    if "status rop = REGISTERED" "ch rop = Some c"
    using that assms by (simp add: ends_finalized_def GetNotify_closed)
  have sdereg:
    "ends_finalized (Subscriber_Deregister body (rctx, x))"
    if "status x = REGISTERED" "ch x = Some d" "is_closed d"
      "\<forall>n \<in> set (queue d). InteractionStage n = MAL_IP_STAGE_PUBSUB_NOTIFY"
      "transport (Ctx rctx)
         (outMessage rctx x MAL_INTERACTIONTYPE_PUBSUB MAL_IP_STAGE_PUBSUB_DEREGISTER body)
         = None"
    for x :: OperationX and d
    using Subscriber_Deregister_closed [OF that(1,5,2,3,4)]
    by (simp add: ends_finalized_def)
  have pdereg:
    "ends_finalized (Publisher_Deregister body (rctx, rop))"
    if "status rop = REGISTERED" "ch rop = Some c"
      "transport (Ctx rctx)
         (outMessage rctx rop MAL_INTERACTIONTYPE_PUBSUB
            MAL_IP_STAGE_PUBSUB_PUBLISH_DEREGISTER body) = None"
    using Publisher_Deregister_closed [OF that(1,3,2) assms]
    by (simp add: ends_finalized_def)
  have sdereg0:
    "ends_finalized (Subscriber_Deregister body (rctx, rop))"
    if "status rop = REGISTERED" "ch rop = Some c"
      "transport (Ctx rctx)
         (outMessage rctx rop MAL_INTERACTIONTYPE_PUBSUB MAL_IP_STAGE_PUBSUB_DEREGISTER body)
         = None"
    using sdereg [of rop c] that assms by simp
  have closing:
    "finalize (snd (Close (rctx, wop))) =
        (rctx\<lparr>handlers := (handlers rctx)(tid wop := None)\<rparr>,
         wop\<lparr>status := FINAL, ch := None\<rparr>)"
    if "status wop \<noteq> CLOSED" "ch wop = Some c''"
    using that
    by (cases "handlers rctx (tid wop)")
       (simp_all add: Close_open deregister_def finalize_def handlers_clear_absent)
  show ?thesis
    by (intro conjI impI; elim conjE;
        (rule created request sreg preg invoke progress ack1 ack2 ack3 prog1 prog2 notify
           sdereg0 pdereg sdereg closing; assumption))
qed

theorem closed_queue_ends_call_witness:
  "ends_finalized (Submit [1] (consumer, consumer_op CREATED (inbound [] True))) \<and>
   ends_finalized (Request [1] (consumer, consumer_op CREATED (inbound [] True))) \<and>
   ends_finalized (Subscriber_Register [1] (consumer, consumer_op CREATED (inbound [] True))) \<and>
   ends_finalized (Publisher_Register [1] (consumer, consumer_op CREATED (inbound [] True))) \<and>
   ends_finalized (Invoke [1] (consumer, consumer_iop CREATED (inbound [] True) None)) \<and>
   ends_finalized (Progress [1] (consumer, consumer_iop CREATED (inbound [] True) None)) \<and>
   ends_finalized (Invoke_GetResponse
     (snd (register consumer 1 0), consumer_iop ACKNOWLEDGED (inbound [] True) None)) \<and>
   ends_finalized (GetUpdate
     (snd (register consumer 1 0), consumer_iop ACKNOWLEDGED (inbound [] True) None)) \<and>
   ends_finalized (Progress_GetResponse
     (snd (register consumer 1 0), consumer_iop ACKNOWLEDGED (inbound [] True) None)) \<and>
   ends_finalized (GetUpdate
     (snd (register consumer 1 0), consumer_iop PROGRESSING (inbound [] True) None)) \<and>
   ends_finalized (Progress_GetResponse
     (snd (register consumer 1 0), consumer_iop PROGRESSING (inbound [] True) None)) \<and>
   ends_finalized (GetNotify
     (snd (register consumer 1 0), consumer_op REGISTERED (inbound [] True))) \<and>
   ends_finalized (Subscriber_Deregister [1]
     (snd (register consumer 1 0), consumer_op REGISTERED (inbound [] True))) \<and>
   ends_finalized (Publisher_Deregister [1]
     (snd (register consumer 1 0), consumer_op REGISTERED (inbound [] True))) \<and>
   ends_finalized (Subscriber_Deregister [1]
     (snd (register consumer 1 0), consumer_op REGISTERED
        (inbound [reply MAL_INTERACTIONTYPE_PUBSUB MAL_IP_STAGE_PUBSUB_NOTIFY False [7]] True))) \<and>
   finalize (snd (Close (snd (register consumer 1 0),
       consumer_op INITIATED (inbound [] False)))) =
     (consumer, (consumer_op FINAL (inbound [] False))\<lparr>ch := None\<rparr>)"
proof -
  let ?c = "inbound [] True"
  let ?d = "inbound [reply MAL_INTERACTIONTYPE_PUBSUB MAL_IP_STAGE_PUBSUB_NOTIFY False [7]] True"
  let ?rctx = "snd (register consumer 1 0)"
  let ?op = "consumer_op CREATED ?c"
  let ?iop = "consumer_iop CREATED ?c None"
  let ?aop = "consumer_iop ACKNOWLEDGED ?c None"
  let ?pop = "consumer_iop PROGRESSING ?c None"
  let ?rop = "consumer_op REGISTERED ?c"
  let ?dop = "consumer_op REGISTERED ?d"
  have q: "queue ?c = []" and cl: "is_closed ?c" by (simp_all add: inbound_def)
  have tr: "transport (Ctx consumer) msg = None" "transport (Ctx ?rctx) msg = None" for msg
    by (simp_all add: consumer_def loopback_def register_def)
  have h_op: "status ?op = CREATED \<and> ch ?op = Some ?c \<and> handlers consumer (tid ?op) = None"
    by (simp add: consumer_op_def consumer_def)
  have h_iop: "status ?iop = CREATED \<and> ch ?iop = Some ?c \<and> handlers consumer (tid ?iop) = None"
    by (simp add: consumer_iop_def consumer_def)
  have h_aop: "status ?aop = ACKNOWLEDGED \<and> ch ?aop = Some ?c"
    by (simp add: consumer_iop_def)
  have h_pop: "status ?pop = PROGRESSING \<and> ch ?pop = Some ?c"
    by (simp add: consumer_iop_def)
  have h_rop: "status ?rop = REGISTERED \<and> ch ?rop = Some ?c"
    by (simp add: consumer_op_def)
  have h_dop: "status ?dop = REGISTERED \<and> ch ?dop = Some ?d \<and> is_closed ?d \<and>
    (\<forall>n \<in> set (queue ?d). InteractionStage n = MAL_IP_STAGE_PUBSUB_NOTIFY) \<and>
    transport (Ctx ?rctx)
      (outMessage ?rctx ?dop MAL_INTERACTIONTYPE_PUBSUB MAL_IP_STAGE_PUBSUB_DEREGISTER [1])
      = None"
    by (simp add: consumer_op_def inbound_def reply_def tr)
  have h_wop: "status (consumer_op INITIATED (inbound [] False)) \<noteq> CLOSED \<and>
      ch (consumer_op INITIATED (inbound [] False)) = Some (inbound [] False)"
    by (simp add: consumer_op_def)
  have e: "(?rctx\<lparr>handlers := (handlers ?rctx)(tid (consumer_op INITIATED (inbound [] False))
               := None)\<rparr>,
            (consumer_op INITIATED (inbound [] False))\<lparr>status := FINAL, ch := None\<rparr>)
         = (consumer, (consumer_op FINAL (inbound [] False))\<lparr>ch := None\<rparr>)"
    by (simp add: consumer_op_def register_def consumer_def)
  note t = closed_queue_ends_call [OF q cl,
      where op = ?op and ictx = consumer and body = "[1]" and iop = ?iop and aop = ?aop
        and pop = ?pop and rop = ?rop and dop = ?dop and c' = ?d and rctx = ?rctx
        and wop = "consumer_op INITIATED (inbound [] False)" and c'' = "inbound [] False"]
  from t h_op h_iop h_aop h_pop h_rop h_dop h_wop tr show ?thesis
    unfolding e [symmetric]
    by (simp del: outMessage_status outMessage_ch)
qed

section \<open>Dispatch in the handler context\<close>

lemma key56_unat:
  "unat (key56 a v s o') = ((unat a * 256 + unat v) * 65536 + unat s) * 65536 + unat o'"
proof -
  have a: "unat a < 65536" using unsigned_less [of a] by simp
  have v: "unat v < 256" using unsigned_less [of v] by simp
  have s: "unat s < 65536" using unsigned_less [of s] by simp
  have o': "unat o' < 65536" using unsigned_less [of o'] by simp
  define N where "N = ((unat a * 256 + unat v) * 65536 + unat s) * 65536 + unat o'"
  have "N < 2 ^ LENGTH(64)"
    unfolding N_def using a v s o' by simp
  then have "unat (word_of_nat N :: 64 word) = N"
    by (rule of_nat_inverse [OF refl])
  then show ?thesis
    unfolding key56_def N_def .
qed

lemma split_digits:
  fixes x y :: nat
  assumes "x * b + r = y * b + r'" and "r < b" and "r' < b"
  shows "x = y \<and> r = r'"
proof -
  have "(x * b + r) div b = x" "(y * b + r') div b = y"
    using assms(2,3) by simp_all
  with assms(1) have "x = y" by metis
  with assms(1) show ?thesis by simp
qed

lemma key56_inj:
  assumes "key56 a v s o' = key56 a' v' s' o''"
  shows "a = a' \<and> v = v' \<and> s = s' \<and> o' = o''"
proof -
  have v: "unat v < 256" "unat v' < 256"
    using unsigned_less [of v] unsigned_less [of v'] by simp_all
  have s: "unat s < 65536" "unat s' < 65536"
    using unsigned_less [of s] unsigned_less [of s'] by simp_all
  have o': "unat o' < 65536" "unat o'' < 65536"
    using unsigned_less [of o'] unsigned_less [of o''] by simp_all
  from assms have "unat (key56 a v s o') = unat (key56 a' v' s' o'')" by simp
  then have e: "((unat a * 256 + unat v) * 65536 + unat s) * 65536 + unat o'
     = ((unat a' * 256 + unat v') * 65536 + unat s') * 65536 + unat o''"
    by (simp only: key56_unat)
  from split_digits [OF e o']
  have e1: "(unat a * 256 + unat v) * 65536 + unat s
              = (unat a' * 256 + unat v') * 65536 + unat s'"
    and o1: "unat o' = unat o''" by simp_all
  from split_digits [OF e1 s]
  have e2: "unat a * 256 + unat v = unat a' * 256 + unat v'"
    and s1: "unat s = unat s'" by simp_all
  from split_digits [OF e2 v] have "unat a = unat a'" and "unat v = unat v'" by simp_all
  with o1 s1 show ?thesis by (simp add: word_unat_eq_iff)
qed

lemma register_h_other:
  "k \<noteq> key a v s o' \<Longrightarrow>
   handlers_h (snd (register_h key hctx t a v s o' h)) k = handlers_h hctx k"
  by (simp add: register_h_def split: option.splits)

lemma register_h_taken:
  "handlers_h hctx k = Some d \<Longrightarrow>
   handlers_h (snd (register_h key hctx t a v s o' h)) k = Some d"
  by (cases "k = key a v s o'") (auto simp: register_h_def split: option.splits)

lemma register_h_free:
  "handlers_h hctx (key a v s o') = None \<Longrightarrow>
   handlers_h (snd (register_h key hctx t a v s o' h)) (key a v s o')
     = Some (descriptor (t, a, v, s, o', h))"
  by (simp add: register_h_def)

lemma register_all_taken:
  "handlers_h hctx k = Some d \<Longrightarrow> handlers_h (register_all key rs hctx) k = Some d"
proof (induction rs arbitrary: hctx)
  case Nil
  then show ?case by simp
next
  case (Cons r rs)
  obtain t a v s o' h where r: "r = (t, a, v, s, o', h)" by (cases r)
  from Cons.prems have "handlers_h (snd (register_h key hctx t a v s o' h)) k = Some d"
    by (rule register_h_taken)
  then show ?case unfolding r by (simp add: Cons.IH)
qed

lemma register_all_lookup:
  assumes inj: "\<And>a v s o' a' v' s' o''.
      key a v s o' = key a' v' s' o'' \<Longrightarrow> a = a' \<and> v = v' \<and> s = s' \<and> o' = o''"
    and free: "handlers_h hctx
        (key (ServiceArea msg) (AreaVersion msg) (Service msg) (Operation msg)) = None"
  shows "handlers_h (register_all key rs hctx)
        (key (ServiceArea msg) (AreaVersion msg) (Service msg) (Operation msg))
     = map_option descriptor (find (registered_for msg) rs)"
  using free
proof (induction rs arbitrary: hctx)
  case Nil
  then show ?case by simp
next
  case (Cons r rs)
  let ?k = "key (ServiceArea msg) (AreaVersion msg) (Service msg) (Operation msg)"
  obtain t a v s o' h where r: "r = (t, a, v, s, o', h)" by (cases r)
  show ?case
  proof (cases "registered_for msg r")
    case True
    then have k: "key a v s o' = ?k" by (simp add: r)
    with Cons.prems
    have "handlers_h (snd (register_h key hctx t a v s o' h)) ?k
            = Some (descriptor (t, a, v, s, o', h))"
      using register_h_free [of hctx key a v s o' t h] by simp
    then have "handlers_h (register_all key rs (snd (register_h key hctx t a v s o' h))) ?k
            = Some (descriptor (t, a, v, s, o', h))"
      by (rule register_all_taken)
    moreover from True have "find (registered_for msg) (r # rs) = Some r"
      by simp
    moreover have "register_all key (r # rs) hctx
        = register_all key rs (snd (register_h key hctx t a v s o' h))"
      by (simp add: r)
    ultimately show ?thesis by (simp only: r option.map)
  next
    case False
    then have "?k \<noteq> key a v s o'"
      using inj [of "ServiceArea msg" "AreaVersion msg" "Service msg" "Operation msg" a v s o']
      by (auto simp: r)
    then have "handlers_h (snd (register_h key hctx t a v s o' h)) ?k = handlers_h hctx ?k"
      by (rule register_h_other)
    with Cons.prems have "handlers_h (snd (register_h key hctx t a v s o' h)) ?k = None"
      by simp
    then have "handlers_h (register_all key rs (snd (register_h key hctx t a v s o' h))) ?k
            = map_option descriptor (find (registered_for msg) rs)"
      by (rule Cons.IH)
    moreover from False have "find (registered_for msg) (r # rs) = find (registered_for msg) rs"
      by simp
    moreover have "register_all key (r # rs) hctx
        = register_all key rs (snd (register_h key hctx t a v s o' h))"
      by (simp add: r)
    ultimately show ?thesis by (simp only:)
  qed
qed

lemma OnMessage_other:
  assumes "InteractionType msg = InteractionType_other"
  shows "OnMessage key hctx msg = Return None"
  using assms by (simp add: OnMessage_def)

lemma OnMessage_absent:
  assumes "handlers_h hctx
        (key (ServiceArea msg) (AreaVersion msg) (Service msg) (Operation msg)) = None"
    and "InteractionType msg \<noteq> InteractionType_other"
  shows "OnMessage key hctx msg = Return (Some HandlerNotRegistered)"
  using assms
  by (cases "InteractionType msg") (simp_all add: OnMessage_def getHandler_def)

lemma OnMessage_other_type:
  assumes "handlers_h hctx
        (key (ServiceArea msg) (AreaVersion msg) (Service msg) (Operation msg)) = Some d"
    and "matching_handlerType (InteractionType msg) = Some t'"
    and "handlerType d \<noteq> t'"
  shows "OnMessage key hctx msg = Return (Some BadHandlerType)"
  using assms
  by (cases "InteractionType msg") (auto simp add: OnMessage_def getHandler_def)

lemma OnMessage_call:
  assumes "handlers_h hctx
        (key (ServiceArea msg) (AreaVersion msg) (Service msg) (Operation msg)) = Some d"
    and "matching_handlerType (InteractionType msg) = Some (handlerType d)"
    and "transaction_of (InteractionType msg) = Some mk"
  shows "OnMessage key hctx msg = Call (handler d) msg (mk (newTransactionX hctx msg))"
  using assms
  by (cases "InteractionType msg") (auto simp add: OnMessage_def getHandler_def)

lemma OnMessage_pubsub:
  assumes "handlers_h hctx
        (key (ServiceArea msg) (AreaVersion msg) (Service msg) (Operation msg)) = Some d"
    and "handlerType d = BROKER_HANDLER"
    and "InteractionType msg = MAL_INTERACTIONTYPE_PUBSUB"
  shows "OnMessage key hctx msg =
     (if InteractionStage msg = MAL_IP_STAGE_PUBSUB_PUBLISH_REGISTER \<or>
         InteractionStage msg = MAL_IP_STAGE_PUBSUB_PUBLISH \<or>
         InteractionStage msg = MAL_IP_STAGE_PUBSUB_PUBLISH_DEREGISTER
      then Call (handler d) msg (PublisherTransactionX (newTransactionX hctx msg))
      else if InteractionStage msg = MAL_IP_STAGE_PUBSUB_REGISTER \<or>
              InteractionStage msg = MAL_IP_STAGE_PUBSUB_DEREGISTER
      then Call (handler d) msg (SubscriberTransactionX (newTransactionX hctx msg))
      else Return (Some BadStagePubSub))"
  using assms by (simp add: OnMessage_def getHandler_def)

lemma transaction_of_matching:
  "InteractionType_other \<noteq> i \<Longrightarrow> i \<noteq> MAL_INTERACTIONTYPE_PUBSUB \<Longrightarrow>
   \<exists>mk. transaction_of i = Some mk"
  by (cases i) simp_all

lemma find_registered_for:
  assumes "find (registered_for msg) rs = Some (t, a, v, s, o', h)"
  shows "a = ServiceArea msg \<and> v = AreaVersion msg \<and> s = Service msg \<and> o' = Operation msg"
proof -
  have "registered_for msg r" if "find (registered_for msg) rs = Some r" for r
    using that by (induction rs) (auto split: if_splits)
  from this [OF assms] show ?thesis by simp
qed

text \<open>
  C2. Let the handler context be made from an empty one by the registrations \<open>rs\<close>, in
  order, with a key function that tells any two 4-tuples apart. The registration in force
  for a message is the first one in \<open>rs\<close> for the message's area, area version, service and
  operation (a later one for the same 4-tuple was rejected as a duplicate). Then:
  if the message's interaction type is none of the six, \<open>OnMessage\<close> returns no error and
  calls no handler, whatever is registered; otherwise,
  if there is no registration in force, \<open>OnMessage\<close> returns the error
  \<open>HandlerNotRegistered\<close> and calls no handler; if its handler type is not the one that
  matches the message's interaction type, \<open>OnMessage\<close> returns the error \<open>BadHandlerType\<close>
  and calls no handler; if it matches and the interaction is not PUBSUB, \<open>OnMessage\<close> calls
  that registration's handler with the message and the transaction of that interaction
  type; for PUBSUB the stages PUBLISH_REGISTER, PUBLISH and PUBLISH_DEREGISTER give a
  publisher transaction, the stages REGISTER and DEREGISTER a subscriber transaction, and
  any other stage the error \<open>BadStagePubSub\<close> without a call. Whenever \<open>OnMessage\<close> calls a
  handler, it is with the message itself, the message's interaction type is one of the
  six, and the handler is the one of the registration in force, whose four selectors are
  the message's and whose type matches the message's interaction type.
\<close>

theorem OnMessage_dispatch:
  assumes inj: "\<forall>a v s o' a' v' s' o''.
      key a v s o' = key a' v' s' o'' \<longrightarrow> a = a' \<and> v = v' \<and> s = s' \<and> o' = o''"
    and empty: "handlers_h h0 = Map.empty"
  shows
  "(InteractionType msg = InteractionType_other \<longrightarrow>
      OnMessage key (register_all key rs h0) msg = Return None) \<and>
   (find (registered_for msg) rs = None \<longrightarrow>
    InteractionType msg \<noteq> InteractionType_other \<longrightarrow>
      OnMessage key (register_all key rs h0) msg = Return (Some HandlerNotRegistered)) \<and>
   (find (registered_for msg) rs = Some (t, a, v, s, o', h) \<longrightarrow>
      (matching_handlerType (InteractionType msg) = Some t' \<longrightarrow> t \<noteq> t' \<longrightarrow>
         OnMessage key (register_all key rs h0) msg = Return (Some BadHandlerType)) \<and>
      (matching_handlerType (InteractionType msg) = Some t \<longrightarrow>
       transaction_of (InteractionType msg) = Some mk \<longrightarrow>
         OnMessage key (register_all key rs h0) msg =
           Call h msg (mk (newTransactionX (register_all key rs h0) msg))) \<and>
      (t = BROKER_HANDLER \<longrightarrow> InteractionType msg = MAL_INTERACTIONTYPE_PUBSUB \<longrightarrow>
         OnMessage key (register_all key rs h0) msg =
           (if InteractionStage msg = MAL_IP_STAGE_PUBSUB_PUBLISH_REGISTER \<or>
               InteractionStage msg = MAL_IP_STAGE_PUBSUB_PUBLISH \<or>
               InteractionStage msg = MAL_IP_STAGE_PUBSUB_PUBLISH_DEREGISTER
            then Call h msg (PublisherTransactionX
                               (newTransactionX (register_all key rs h0) msg))
            else if InteractionStage msg = MAL_IP_STAGE_PUBSUB_REGISTER \<or>
                    InteractionStage msg = MAL_IP_STAGE_PUBSUB_DEREGISTER
            then Call h msg (SubscriberTransactionX
                               (newTransactionX (register_all key rs h0) msg))
            else Return (Some BadStagePubSub)))) \<and>
   (OnMessage key (register_all key rs h0) msg = Call h' m' tx \<longrightarrow>
      m' = msg \<and>
      (\<exists>t. matching_handlerType (InteractionType msg) = Some t \<and>
        find (registered_for msg) rs =
          Some (t, ServiceArea msg, AreaVersion msg, Service msg, Operation msg, h')))"
proof -
  let ?hctx = "register_all key rs h0"
  let ?k = "key (ServiceArea msg) (AreaVersion msg) (Service msg) (Operation msg)"
  have look: "handlers_h ?hctx ?k = map_option descriptor (find (registered_for msg) rs)"
    by (rule register_all_lookup) (use inj empty in auto)
  have other: "OnMessage key ?hctx msg = Return None"
    if "InteractionType msg = InteractionType_other"
    using that by (rule OnMessage_other)
  have none: "OnMessage key ?hctx msg = Return (Some HandlerNotRegistered)"
    if "find (registered_for msg) rs = None"
      "InteractionType msg \<noteq> InteractionType_other"
    using that look by (simp add: OnMessage_absent)
  have some: "handlers_h ?hctx ?k = Some (descriptor (t, a, v, s, o', h))"
    if "find (registered_for msg) rs = Some (t, a, v, s, o', h)" for t a v s o' h
    using that look by simp
  have bad: "OnMessage key ?hctx msg = Return (Some BadHandlerType)"
    if "find (registered_for msg) rs = Some (t, a, v, s, o', h)"
      "matching_handlerType (InteractionType msg) = Some t'"
      "t \<noteq> t'" for t t' a v s o' h
    using OnMessage_other_type [where key = key and msg = msg, OF some [OF that(1)] that(2)]
      that(3)
    by simp
  have call: "OnMessage key ?hctx msg = Call h msg (mk (newTransactionX ?hctx msg))"
    if "find (registered_for msg) rs = Some (t, a, v, s, o', h)"
      "matching_handlerType (InteractionType msg) = Some t"
      "transaction_of (InteractionType msg) = Some mk" for t a v s o' h mk
    using OnMessage_call [where key = key and msg = msg and mk = mk, OF some [OF that(1)]]
      that(2,3)
    by simp
  have pubsub: "OnMessage key ?hctx msg =
           (if InteractionStage msg = MAL_IP_STAGE_PUBSUB_PUBLISH_REGISTER \<or>
               InteractionStage msg = MAL_IP_STAGE_PUBSUB_PUBLISH \<or>
               InteractionStage msg = MAL_IP_STAGE_PUBSUB_PUBLISH_DEREGISTER
            then Call h msg (PublisherTransactionX (newTransactionX ?hctx msg))
            else if InteractionStage msg = MAL_IP_STAGE_PUBSUB_REGISTER \<or>
                    InteractionStage msg = MAL_IP_STAGE_PUBSUB_DEREGISTER
            then Call h msg (SubscriberTransactionX (newTransactionX ?hctx msg))
            else Return (Some BadStagePubSub))"
    if "find (registered_for msg) rs = Some (t, a, v, s, o', h)"
      "t = BROKER_HANDLER" "InteractionType msg = MAL_INTERACTIONTYPE_PUBSUB" for t a v s o' h
    using OnMessage_pubsub [where key = key and msg = msg, OF some [OF that(1)]] that(2,3)
    by simp
  have called: "m' = msg \<and>
      (\<exists>t. matching_handlerType (InteractionType msg) = Some t \<and>
        find (registered_for msg) rs =
          Some (t, ServiceArea msg, AreaVersion msg, Service msg, Operation msg, h'))"
    if c: "OnMessage key ?hctx msg = Call h' m' tx"
  proof (cases "matching_handlerType (InteractionType msg)")
    case None
    then have "InteractionType msg = InteractionType_other"
      by (cases "InteractionType msg") simp_all
    from other [OF this] c show ?thesis by simp
  next
    case m: (Some t0)
    then have known: "InteractionType msg \<noteq> InteractionType_other"
      by auto
    show ?thesis
    proof (cases "find (registered_for msg) rs")
      case None
      from none [OF None known] c show ?thesis by simp
    next
      case (Some r)
      obtain t1 a1 v1 s1 o1 h1 where r: "r = (t1, a1, v1, s1, o1, h1)" by (cases r)
      note f = Some [unfolded r]
      note sel = find_registered_for [OF f]
      show ?thesis
      proof (cases "t1 = t0")
        case False
        with bad [OF f m] c show ?thesis by simp
      next
        case True
        show ?thesis
        proof (cases "InteractionType msg = MAL_INTERACTIONTYPE_PUBSUB")
          case False
          with known obtain mk where mk: "transaction_of (InteractionType msg) = Some mk"
            using transaction_of_matching [of "InteractionType msg"] by auto
          from call [OF f m [folded True] mk] c f sel True m show ?thesis by simp
        next
          case p: True
          with True m have "t1 = BROKER_HANDLER" by simp
          from pubsub [OF f this p] c f sel True m show ?thesis
            by (simp split: if_splits)
        qed
      qed
    qed
  qed
  show ?thesis
    by (intro conjI impI; (rule other none bad call pubsub; assumption)?)
       (rule called [THEN conjunct1], assumption, rule called [THEN conjunct2], assumption)
qed

theorem OnMessage_dispatch_witness:
  "OnMessage key56 (register_all key56 provider_registrations provider)
       (provider_msg MAL_INTERACTIONTYPE_SUBMIT MAL_IP_STAGE_SUBMIT 1) =
     Call 5 (provider_msg MAL_INTERACTIONTYPE_SUBMIT MAL_IP_STAGE_SUBMIT 1)
       (SubmitTransactionX
          (newTransactionX (register_all key56 provider_registrations provider)
             (provider_msg MAL_INTERACTIONTYPE_SUBMIT MAL_IP_STAGE_SUBMIT 1))) \<and>
   find (registered_for (provider_msg MAL_INTERACTIONTYPE_SUBMIT MAL_IP_STAGE_SUBMIT 1))
       provider_registrations = Some (SUBMIT_HANDLER, 1, 1, 1, 1, 5) \<and>
   OnMessage key56 (register_all key56 provider_registrations provider)
       (provider_msg MAL_INTERACTIONTYPE_REQUEST MAL_IP_STAGE_REQUEST 1) =
     Return (Some BadHandlerType) \<and>
   OnMessage key56 (register_all key56 provider_registrations provider)
       (provider_msg MAL_INTERACTIONTYPE_SUBMIT MAL_IP_STAGE_SUBMIT 3) =
     Return (Some HandlerNotRegistered) \<and>
   OnMessage key56 (register_all key56 provider_registrations provider)
       (provider_msg MAL_INTERACTIONTYPE_PUBSUB MAL_IP_STAGE_PUBSUB_REGISTER 2) =
     Call 6 (provider_msg MAL_INTERACTIONTYPE_PUBSUB MAL_IP_STAGE_PUBSUB_REGISTER 2)
       (SubscriberTransactionX
          (newTransactionX (register_all key56 provider_registrations provider)
             (provider_msg MAL_INTERACTIONTYPE_PUBSUB MAL_IP_STAGE_PUBSUB_REGISTER 2))) \<and>
   OnMessage key56 (register_all key56 provider_registrations provider)
       (provider_msg MAL_INTERACTIONTYPE_PUBSUB MAL_IP_STAGE_PUBSUB_PUBLISH 2) =
     Call 6 (provider_msg MAL_INTERACTIONTYPE_PUBSUB MAL_IP_STAGE_PUBSUB_PUBLISH 2)
       (PublisherTransactionX
          (newTransactionX (register_all key56 provider_registrations provider)
             (provider_msg MAL_INTERACTIONTYPE_PUBSUB MAL_IP_STAGE_PUBSUB_PUBLISH 2))) \<and>
   OnMessage key56 (register_all key56 provider_registrations provider)
       (provider_msg MAL_INTERACTIONTYPE_PUBSUB MAL_IP_STAGE_PUBSUB_NOTIFY 2) =
     Return (Some BadStagePubSub) \<and>
   OnMessage key56 (register_all key56 provider_registrations provider)
       (provider_msg InteractionType_other MAL_IP_STAGE_SUBMIT 2) =
     Return None"
proof -
  let ?hctx = "register_all key56 provider_registrations provider"
  let ?m1 = "provider_msg MAL_INTERACTIONTYPE_SUBMIT MAL_IP_STAGE_SUBMIT 1"
  let ?m2 = "provider_msg MAL_INTERACTIONTYPE_REQUEST MAL_IP_STAGE_REQUEST 1"
  let ?m3 = "provider_msg MAL_INTERACTIONTYPE_SUBMIT MAL_IP_STAGE_SUBMIT 3"
  let ?m4 = "provider_msg MAL_INTERACTIONTYPE_PUBSUB MAL_IP_STAGE_PUBSUB_REGISTER 2"
  let ?m5 = "provider_msg MAL_INTERACTIONTYPE_PUBSUB MAL_IP_STAGE_PUBSUB_PUBLISH 2"
  let ?m6 = "provider_msg MAL_INTERACTIONTYPE_PUBSUB MAL_IP_STAGE_PUBSUB_NOTIFY 2"
  let ?m7 = "provider_msg InteractionType_other MAL_IP_STAGE_SUBMIT 2"
  have inj: "\<forall>a v s o' a' v' s' o''.
      key56 a v s o' = key56 a' v' s' o'' \<longrightarrow> a = a' \<and> v = v' \<and> s = s' \<and> o' = o''"
    using key56_inj by blast
  have empty: "handlers_h provider = Map.empty"
    by (simp add: provider_def)
  note t = OnMessage_dispatch [OF inj empty, where rs = provider_registrations]
  have f1: "find (registered_for ?m1) provider_registrations = Some (SUBMIT_HANDLER, 1, 1, 1, 1, 5)"
    by (simp add: provider_registrations_def provider_msg_def)
  have f2: "find (registered_for ?m2) provider_registrations = Some (SUBMIT_HANDLER, 1, 1, 1, 1, 5)"
    by (simp add: provider_registrations_def provider_msg_def)
  have f3: "find (registered_for ?m3) provider_registrations = None"
    by (simp add: provider_registrations_def provider_msg_def)
  have f4: "find (registered_for ?m4) provider_registrations = Some (BROKER_HANDLER, 1, 1, 1, 2, 6)"
    by (simp add: provider_registrations_def provider_msg_def)
  have f5: "find (registered_for ?m5) provider_registrations = Some (BROKER_HANDLER, 1, 1, 1, 2, 6)"
    by (simp add: provider_registrations_def provider_msg_def)
  have f6: "find (registered_for ?m6) provider_registrations = Some (BROKER_HANDLER, 1, 1, 1, 2, 6)"
    by (simp add: provider_registrations_def provider_msg_def)
  have i1: "InteractionType ?m1 = MAL_INTERACTIONTYPE_SUBMIT"
    and i2: "InteractionType ?m2 = MAL_INTERACTIONTYPE_REQUEST"
    and i3: "InteractionType ?m3 = MAL_INTERACTIONTYPE_SUBMIT"
    and i4: "InteractionType ?m4 = MAL_INTERACTIONTYPE_PUBSUB"
      "InteractionStage ?m4 = MAL_IP_STAGE_PUBSUB_REGISTER"
    and i5: "InteractionType ?m5 = MAL_INTERACTIONTYPE_PUBSUB"
      "InteractionStage ?m5 = MAL_IP_STAGE_PUBSUB_PUBLISH"
    and i6: "InteractionType ?m6 = MAL_INTERACTIONTYPE_PUBSUB"
      "InteractionStage ?m6 = MAL_IP_STAGE_PUBSUB_NOTIFY"
    and i7: "InteractionType ?m7 = InteractionType_other"
    by (simp_all add: provider_msg_def)
  have c1: "OnMessage key56 ?hctx ?m1 =
      Call 5 ?m1 (SubmitTransactionX (newTransactionX ?hctx ?m1))"
    using t [where msg = ?m1 and t = SUBMIT_HANDLER and a = 1 and v = 1 and s = 1
          and o' = 1 and h = 5 and mk = SubmitTransactionX,
          THEN conjunct2, THEN conjunct2, THEN conjunct1] f1
    by (simp add: i1)
  have c1': "find (registered_for ?m1) provider_registrations
      = Some (SUBMIT_HANDLER, 1, 1, 1, 1, 5)"
    using t [where msg = ?m1 and h' = 5 and m' = ?m1
          and tx = "SubmitTransactionX (newTransactionX ?hctx ?m1)",
          THEN conjunct2, THEN conjunct2, THEN conjunct2] c1
    by (simp add: i1 provider_msg_def)
  have c2: "OnMessage key56 ?hctx ?m2 = Return (Some BadHandlerType)"
    using t [where msg = ?m2 and t = SUBMIT_HANDLER and a = 1 and v = 1 and s = 1
          and o' = 1 and h = 5 and t' = REQUEST_HANDLER,
          THEN conjunct2, THEN conjunct2, THEN conjunct1] f2
    by (simp add: i2)
  have c3: "OnMessage key56 ?hctx ?m3 = Return (Some HandlerNotRegistered)"
    using t [where msg = ?m3,
          THEN conjunct2, THEN conjunct1] f3 by (simp add: i3)
  have c4: "OnMessage key56 ?hctx ?m4 =
      Call 6 ?m4 (SubscriberTransactionX (newTransactionX ?hctx ?m4))"
    using t [where msg = ?m4 and t = BROKER_HANDLER and a = 1 and v = 1 and s = 1
          and o' = 2 and h = 6,
          THEN conjunct2, THEN conjunct2, THEN conjunct1] f4
    by (simp add: i4)
  have c5: "OnMessage key56 ?hctx ?m5 =
      Call 6 ?m5 (PublisherTransactionX (newTransactionX ?hctx ?m5))"
    using t [where msg = ?m5 and t = BROKER_HANDLER and a = 1 and v = 1 and s = 1
          and o' = 2 and h = 6,
          THEN conjunct2, THEN conjunct2, THEN conjunct1] f5
    by (simp add: i5)
  have c6: "OnMessage key56 ?hctx ?m6 = Return (Some BadStagePubSub)"
    using t [where msg = ?m6 and t = BROKER_HANDLER and a = 1 and v = 1 and s = 1
          and o' = 2 and h = 6,
          THEN conjunct2, THEN conjunct2, THEN conjunct1] f6
    by (simp add: i6)
  have c7: "OnMessage key56 ?hctx ?m7 = Return None"
    using t [where msg = ?m7, THEN conjunct1] by (simp add: i7)
  from c1 c1' c2 c3 c4 c5 c6 c7 show ?thesis by (intro conjI)
qed

text \<open>
  C2, as the spec words it, says that \<open>OnMessage\<close> returns an error whenever no handler
  with a matching type is registered for the message's 4-tuple. A message whose
  interaction type is none of the six gets no error: not when no handler at all is
  registered for its 4-tuple (operation 3 of the provider), and not when the handler
  registered for it is of a type that cannot match (the submit handler of operation 1).
\<close>

theorem OnMessage_unknown_type_counterexample:
  "handlers_h (register_all key56 provider_registrations provider) (key56 1 1 1 3) = None \<and>
   OnMessage key56 (register_all key56 provider_registrations provider)
       (provider_msg InteractionType_other MAL_IP_STAGE_SUBMIT 3) = Return None \<and>
   map_option handlerType
       (handlers_h (register_all key56 provider_registrations provider) (key56 1 1 1 1)) =
     Some SUBMIT_HANDLER \<and>
   matching_handlerType InteractionType_other = None \<and>
   OnMessage key56 (register_all key56 provider_registrations provider)
       (provider_msg InteractionType_other MAL_IP_STAGE_SUBMIT 1) = Return None"
proof -
  let ?hctx = "register_all key56 provider_registrations provider"
  let ?m3 = "provider_msg InteractionType_other MAL_IP_STAGE_SUBMIT 3"
  let ?m1 = "provider_msg InteractionType_other MAL_IP_STAGE_SUBMIT 1"
  have empty: "handlers_h provider k = None" for k
    by (simp add: provider_def)
  have l3: "handlers_h ?hctx (key56 1 1 1 3) = None"
    using register_all_lookup [where key = key56 and msg = ?m3 and hctx = provider
        and rs = provider_registrations, OF key56_inj empty]
    by (simp add: provider_msg_def provider_registrations_def)
  have l1: "map_option handlerType (handlers_h ?hctx (key56 1 1 1 1)) = Some SUBMIT_HANDLER"
    using register_all_lookup [where key = key56 and msg = ?m1 and hctx = provider
        and rs = provider_registrations, OF key56_inj empty]
    by (simp add: provider_msg_def provider_registrations_def)
  have o3: "OnMessage key56 ?hctx ?m3 = Return None"
    by (rule OnMessage_other) (simp add: provider_msg_def)
  have o1: "OnMessage key56 ?hctx ?m1 = Return None"
    by (rule OnMessage_other) (simp add: provider_msg_def)
  have m: "matching_handlerType InteractionType_other = None"
    by simp
  from l3 o3 l1 m o1 show ?thesis by (intro conjI)
qed

end
